theory Spec2Isabelle
  imports Complex_Main "HOL-Library.Multiset" "HOL-Library.Char_ord"
    "HOL-Library.List_Lexorder" "HOL-Library.Product_Lexorder"
begin

section \<open>The missed-sales dashboard script\<close>

text \<open>
  A shallow embedding of \<^verbatim>\<open>missed_sales_dashboard_v2.py\<close>: the loader \<^verbatim>\<open>load_data\<close>, the two
  translation dictionaries, and the chain of data-frame statements that builds the
  tables handed to the charts. A data frame is a list of rows, a row is a record of its
  columns, and a nullable text or key column has an \<open>option\<close> type (\<open>None\<close> is pandas'
  null). A cell of a quantity column is kept abstract: it is whatever pandas holds there
  (an int64, a float64, a string, a null), and the pandas functions that read, convert
  and add such cells are parameters. Coordinates and marker sizes are rationals; text
  columns hold plain strings. The chart calls themselves draw and compute nothing, and
  are left out.
\<close>

subsection \<open>Loading (lines 19-36)\<close>

datatype error = ValueError string | TypeError

text \<open>
  \<^verbatim>\<open>str.rfind\<close> for a one-character needle: the last index holding it, or \<open>-1\<close>.
\<close>

primrec rfind_from :: "char \<Rightarrow> string \<Rightarrow> int \<Rightarrow> int \<Rightarrow> int" where
  "rfind_from c [] i found = found"
| "rfind_from c (x # xs) i found = rfind_from c xs (i + 1) (if x = c then i else found)"

definition rfind :: "string \<Rightarrow> char \<Rightarrow> int" where
  "rfind p c = rfind_from c p 0 (- 1)"

text \<open>
  \<^verbatim>\<open>os.path.splitext\<close> (the POSIX version of Python's standard library): the extension
  starts at the last dot of the last path component, and a component made of leading
  dots only has no extension. The loop over \<^verbatim>\<open>filenameIndex\<close> searches the characters
  between the last separator and the last dot for one that is not a dot.
\<close>

definition splitext :: "string \<Rightarrow> string \<times> string" where
  "splitext p =
     (let sepIndex = rfind p (CHR ''/'');
          dotIndex = rfind p (CHR ''.'')
      in if dotIndex > sepIndex \<and>
            list_ex (\<lambda>ch. ch \<noteq> CHR ''.'')
              (take (nat (dotIndex - (sepIndex + 1))) (drop (nat (sepIndex + 1)) p))
         then (take (nat dotIndex) p, drop (nat dotIndex) p)
         else (p, []))"

text \<open>
  \<^verbatim>\<open>load_data\<close>. The two readers are pandas' (\<^verbatim>\<open>read_csv\<close> with the script's fixed
  options, \<^verbatim>\<open>read_parquet\<close>); they are parameters, and may fail on their own account.
\<close>

definition load_data ::
  "(string \<Rightarrow> error + 't) \<Rightarrow> (string \<Rightarrow> error + 't) \<Rightarrow> string \<Rightarrow> error + 't" where
  "load_data read_csv read_parquet file_path =
     (let file_extension = snd (splitext file_path)
      in if file_extension = ''.csv'' then read_csv file_path
         else if file_extension = ''.parquet'' then read_parquet file_path
         else Inl (ValueError ''Unsupported file format''))"

subsection \<open>The tables\<close>

record timestamp =
  year :: int
  month :: nat
  day :: nat

type_synonym period = "int \<times> nat"

text \<open>
  A cell of a Date column: a value that is not yet a datetime (\<open>Raw\<close>, for instance a
  string), a datetime, or the null datetime. A cell of a text column that mixes strings
  with other values (the postal codes): a string, or any other object, null included.
\<close>

datatype 'd date_cell = Raw 'd | Timestamp timestamp | NaT

datatype 'p cell = Str string | Obj 'p

record ('d, 'q) missed_sale =
  ms_CustomerNbr :: "int option"
  ms_Date :: "'d date_cell"
  ms_AantalBesteld :: 'q
  ms_GEMISTEVERKOOPFLG :: "int option"
  ms_Reason :: "string option"

record ('d, 'q) missed_sale_clean = "('d, 'q) missed_sale" +
  DatePeriod :: "period option"

record ('d, 'q) actual_sale =
  as_CustomerNbr :: "int option"
  as_Date :: "'d date_cell"
  as_SaleQuantity :: 'q

record 'p customer =
  c_CustomerNbr :: "int option"
  c_CustomerType :: "string option"
  c_CustomerCity :: "string option"
  c_CustomerPostalCode :: "'p cell"

record 'p postal_location =
  pc_CustomerPostalCode :: "'p cell"
  pc_Latitude :: "rat option"
  pc_Longitude :: "rat option"

text \<open>
  The pandas and Python functions the script relies on, whose code is not part of the
  repository. Every result below holds for all of them.

  \<^item> \<^verbatim>\<open>pd.to_datetime(column, errors='coerce')\<close> first guesses one format for the whole
    column (pandas 2 takes it from the first cell that is not null; \<open>None\<close> when it finds
    none, and then every cell is parsed on its own), then parses each cell with it: 
    \<open>guess_format_for_array\<close> and \<open>strptime\<close> (\<open>None\<close> where the cell does not parse).
  \<^item> \<^verbatim>\<open>pd.to_numeric(column, errors='coerce')\<close> first settles the dtype of the result from
    the cells that occur in the column (int64 when all of them are integers, float64 as
    soon as one is fractional or does not parse), then converts each cell to it:
    \<open>to_numeric_dtype\<close> and \<open>to_numeric_cell\<close>.
  \<^item> \<open>isna\<close> tells the null cells; \<open>col_sum\<close> is the sum pandas computes for the cells of
    one group that are not null, in the order of the rows (int64 addition wraps around,
    float64 addition rounds, the sum of no cell is zero, strings are concatenated);
    \<open>number\<close> is the value of a cell that holds a number, and \<open>None\<close> for any other cell.
    The sum is taken to return on every column. (The sales tables are read from Parquet
    files, where a quantity column holds numbers or text; a column of a type that pandas
    refuses to add, such as datetimes, would stop the script at its first sum, and is
    left out.)
  \<^item> Python's \<^verbatim>\<open>str\<close> on a cell that is not a string; \<open>str_null\<close> is the string it gives
    for a null.
\<close>

record ('d, 'f, 'q, 't, 'p) pandas =
  guess_format_for_array :: "'d date_cell list \<Rightarrow> 'f option"
  strptime :: "'f option \<Rightarrow> 'd \<Rightarrow> timestamp option"
  to_numeric_dtype :: "'q set \<Rightarrow> 't"
  to_numeric_cell :: "'t \<Rightarrow> 'q \<Rightarrow> 'q"
  isna :: "'q \<Rightarrow> bool"
  col_sum :: "'q list \<Rightarrow> 'q"
  number :: "'q \<Rightarrow> rat option"
  str :: "'p \<Rightarrow> string"
  str_null :: string

text \<open>One cell of a Date column, parsed with the format guessed for its column.\<close>

fun to_datetime_coerce ::
  "('d, 'f, 'q, 't, 'p) pandas \<Rightarrow> 'f option \<Rightarrow> 'd date_cell \<Rightarrow> 'd date_cell" where
  "to_datetime_coerce L fmt (Raw x) = (case strptime L fmt x of Some t \<Rightarrow> Timestamp t | None \<Rightarrow> NaT)"
| "to_datetime_coerce L fmt (Timestamp t) = Timestamp t"
| "to_datetime_coerce L fmt NaT = NaT"

text \<open>
  \<^verbatim>\<open>.dt.to_period('M')\<close>: the calendar month of a datetime; null for the null datetime.
  (No \<open>Raw\<close> cell is left in a column that went through \<open>to_datetime_coerce\<close>.)
\<close>

fun to_period_M :: "'d date_cell \<Rightarrow> period option" where
  "to_period_M (Timestamp t) = Some (year t, month t)"
| "to_period_M NaT = None"
| "to_period_M (Raw x) = None"

fun astype_str :: "('d, 'f, 'q, 't, 'p) pandas \<Rightarrow> 'p cell \<Rightarrow> 'p cell" where
  "astype_str L (Str s) = Str s"
| "astype_str L (Obj x) = Str (str L x)"

fun astype_str_opt :: "('d, 'f, 'q, 't, 'p) pandas \<Rightarrow> string option \<Rightarrow> string option" where
  "astype_str_opt L (Some s) = Some s"
| "astype_str_opt L None = Some (str_null L)"

text \<open>The value of a cell as a number, 0 for a cell that holds none.\<close>

definition cell_value :: "('d, 'f, 'q, 't, 'p) pandas \<Rightarrow> 'q \<Rightarrow> rat" where
  "cell_value L c = (case number L c of Some v \<Rightarrow> v | None \<Rightarrow> 0)"

subsection \<open>The translation dictionaries (lines 74-95 and 158-169)\<close>

definition reason_translation :: "(string \<times> string) list" where
  "reason_translation =
    [(''Product niet verkrijgbaar bij leverancier'', ''Product not available from supplier''),
     (''Product ontbreekt hier, maar nog aanwezig in andere eenheid (niet doorbesteld)'',
        ''Product missing here but present in another unit (not reordered)''),
     (''aantal aangepast omwille van quota'', ''quantity adjusted due to quota''),
     (''dels doorbesteld'', ''dels reordered''),
     (''doorbesteld'', ''reordered''),
     (''geen prodcode SH,SD,SV,CH, CV voor webshop'', ''no prodcode SH,SD,SV,CH, CV for webshop''),
     (''klanten met leveringsplicht enkel prodcode SH,SD,SV,CH, CV'',
        ''customers with delivery obligation only prodcode SH,SD,SV,CH, CV''),
     (''product geblokkeerd voor deze klant /selective distributie'',
        ''product blocked for this customer / selective distribution''),
     (''product is vervangen'', ''product has been replaced''),
     (''product mag bidir niet besteld worden of enkel TO'',
        ''product may not be ordered bidir or only TO''),
     (''stock 0'', ''stock 0''),
     (''stock 0 omwille van quota'', ''stock 0 due to quota''),
     (''substitutieproduct zal geleverd worden'', ''substitute product will be delivered''),
     (''vervangingsproduct zal geleverd worden'', ''replacement product will be delivered''),
     (''Product is uit de handel (stocktoeak = UH)'', ''Product is out of business (stocktoeak = UH)''),
     (''code niet doorbestellen stat op bij product'', ''code do not reorder listed on product''),
     (''fout bij read'', ''error during read''),
     (''product op vloer dus niet doorbestellen'', ''product on floor so do not reorder''),
     (''niet doorbestellen dus aantal aangepast'', ''do not reorder, so quantity adjusted''),
     (''tot lijnen > 99999'', ''up to lines > 99999'')]"

definition customer_type_translations :: "(string \<times> string) list" where
  "customer_type_translations =
    [(''Diversen'', ''Various''),
     (''Kliniek'', ''Clinic''),
     (''Lid'', ''Member''),
     (''Leveringsplicht'', ''Delivery Duty''),
     (''Niet lid'', ''Non-member''),
     (''Personeel'', ''Staff''),
     (''Speciale klanten EXPORT'', ''Special Customers EXPORT''),
     (''Transfer Orders'', ''Transfer Orders''),
     (''Vergunninghouder'', ''Permit Holder''),
     (''Webshop'', ''Webshop'')]"

text \<open>
  \<^verbatim>\<open>Series.map(d)\<close> looks every cell up in the dictionary: a label that is not a key, and a
  null, become null. \<^verbatim>\<open>Series.replace(d)\<close> replaces the cells that are keys and leaves every
  other cell as it is.
\<close>

definition series_map :: "(string \<times> string) list \<Rightarrow> string option \<Rightarrow> string option" where
  "series_map d x = (case x of None \<Rightarrow> None | Some s \<Rightarrow> map_of d s)"

definition series_replace :: "(string \<times> string) list \<Rightarrow> string option \<Rightarrow> string option" where
  "series_replace d x =
     (case x of None \<Rightarrow> None
      | Some s \<Rightarrow> (case map_of d s of Some v \<Rightarrow> Some v | None \<Rightarrow> Some s))"

subsection \<open>Joins and grouped sums\<close>

text \<open>
  \<^verbatim>\<open>pd.merge(left, right, on=key, how='inner')\<close>: every left row with every right row of
  the same key, in the order of the left rows; pandas matches a null key with a null key.
  A merged row is the pair of its two rows.
\<close>

definition merge_inner :: "('a \<Rightarrow> 'k) \<Rightarrow> ('b \<Rightarrow> 'k) \<Rightarrow> 'a list \<Rightarrow> 'b list \<Rightarrow> ('a \<times> 'b) list" where
  "merge_inner lkey rkey left right =
     concat (map (\<lambda>l. map (Pair l) (filter (\<lambda>r. rkey r = lkey l) right)) left)"

text \<open>
  SQL's \<^verbatim>\<open>INNER JOIN ... ON a = b\<close>: as above, but a null key equals nothing. (DuckDB
  promises no row order; the grouped sums below do not depend on it.)
\<close>

definition sql_eq :: "'k option \<Rightarrow> 'k option \<Rightarrow> bool" where
  "sql_eq a b = (a \<noteq> None \<and> a = b)"

definition sql_inner_join ::
  "('a \<Rightarrow> 'k option) \<Rightarrow> ('b \<Rightarrow> 'k option) \<Rightarrow> 'a list \<Rightarrow> 'b list \<Rightarrow> ('a \<times> 'b) list" where
  "sql_inner_join lkey rkey left right =
     concat (map (\<lambda>l. map (Pair l) (filter (\<lambda>r. sql_eq (lkey l) (rkey r)) right)) left)"

text \<open>
  \<^verbatim>\<open>left.merge(right, on=key, how='left')\<close>: a left row with no match is kept once, with
  null in the columns of the right table.
\<close>

definition merge_left :: "('a \<Rightarrow> 'k) \<Rightarrow> ('b \<Rightarrow> 'k) \<Rightarrow> 'a list \<Rightarrow> 'b list \<Rightarrow> ('a \<times> 'b option) list" where
  "merge_left lkey rkey left right =
     concat (map (\<lambda>l. case filter (\<lambda>r. rkey r = lkey l) right of
                        [] \<Rightarrow> [(l, None)]
                      | rs \<Rightarrow> map (\<lambda>r. (l, Some r)) rs) left)"

text \<open>
  \<^verbatim>\<open>groupby(keys).sum()\<close> of one column: rows with a null in a key column are dropped, the
  total of a group is pandas' sum of the cells of its rows that are not null, and the
  groups come out sorted by key, one row per key.
\<close>

definition groupby_sum ::
  "('d, 'f, 'q, 't, 'p) pandas \<Rightarrow> ('r \<Rightarrow> 'k::linorder option) \<Rightarrow> ('r \<Rightarrow> 'q) \<Rightarrow> 'r list
     \<Rightarrow> ('k \<times> 'q) list" where
  "groupby_sum L key val rows =
     map (\<lambda>k. (k, col_sum L (filter (\<lambda>c. \<not> isna L c) (map val (filter (\<lambda>r. key r = Some k) rows)))))
       (sort (remdups (List.map_filter key rows)))"

subsection \<open>Lines 66-121: missed sales over time by reason\<close>

text \<open>
  Lines 67 and 68 overwrite the Date column of the two loaded sales tables with its
  datetime conversion, each column with the format guessed for it.
\<close>

definition missed_date_format ::
  "('d, 'f, 'q, 't, 'p) pandas \<Rightarrow> ('d, 'q) missed_sale list \<Rightarrow> 'f option" where
  "missed_date_format L missed_sales = guess_format_for_array L (map ms_Date missed_sales)"

definition missed_sales_to_datetime ::
  "('d, 'f, 'q, 't, 'p) pandas \<Rightarrow> ('d, 'q) missed_sale list \<Rightarrow> ('d, 'q) missed_sale list" where
  "missed_sales_to_datetime L missed_sales =
     map (\<lambda>r. r\<lparr>ms_Date := to_datetime_coerce L (missed_date_format L missed_sales) (ms_Date r)\<rparr>)
       missed_sales"

definition actual_sales_to_datetime ::
  "('d, 'f, 'q, 't, 'p) pandas \<Rightarrow> ('d, 'q) actual_sale list \<Rightarrow> ('d, 'q) actual_sale list" where
  "actual_sales_to_datetime L actual_sales =
     map (\<lambda>r. r\<lparr>as_Date :=
                 to_datetime_coerce L (guess_format_for_array L (map as_Date actual_sales)) (as_Date r)\<rparr>)
       actual_sales"

text \<open>
  Lines 71 and 98: the rows whose flag equals 1, then the Reason column looked up in the
  dictionary.
\<close>

definition missed_sales_filtered :: "('d, 'q) missed_sale list \<Rightarrow> ('d, 'q) missed_sale list" where
  "missed_sales_filtered missed_sales =
     map (\<lambda>r. r\<lparr>ms_Reason := series_map reason_translation (ms_Reason r)\<rparr>)
       (filter (\<lambda>r. ms_GEMISTEVERKOOPFLG r = Some 1) missed_sales)"

text \<open>
  Line 105 drops the rows with a null Date or Reason. Lines 111 and 114 then make the
  quantity column of what is left numeric and add the month. (Line 108, \<^verbatim>\<open>astype(str)\<close> on
  the Reason column, changes nothing: every Reason left is a string.)
\<close>

definition missed_sales_dropna :: "('d, 'q) missed_sale list \<Rightarrow> ('d, 'q) missed_sale list" where
  "missed_sales_dropna filtered = filter (\<lambda>r. ms_Date r \<noteq> NaT \<and> ms_Reason r \<noteq> None) filtered"

definition missed_sales_clean ::
  "('d, 'f, 'q, 't, 'p) pandas \<Rightarrow> ('d, 'q) missed_sale list \<Rightarrow> ('d, 'q) missed_sale_clean list" where
  "missed_sales_clean L filtered =
     (let kept = missed_sales_dropna filtered;
          dtype = to_numeric_dtype L (ms_AantalBesteld ` set kept)
      in map (\<lambda>r. \<lparr>ms_CustomerNbr = ms_CustomerNbr r, ms_Date = ms_Date r,
                   ms_AantalBesteld = to_numeric_cell L dtype (ms_AantalBesteld r),
                   ms_GEMISTEVERKOOPFLG = ms_GEMISTEVERKOOPFLG r, ms_Reason = ms_Reason r,
                   DatePeriod = to_period_M (ms_Date r)\<rparr>) kept)"

text \<open>A key of two columns is null as soon as one of them is.\<close>

definition key2 :: "'a option \<Rightarrow> 'b option \<Rightarrow> ('a \<times> 'b) option" where
  "key2 a b = (case a of None \<Rightarrow> None | Some x \<Rightarrow> (case b of None \<Rightarrow> None | Some y \<Rightarrow> Some (x, y)))"

text \<open>
  Lines 117-121. \<^verbatim>\<open>sum(numeric_only=True)\<close> sums every numeric column; the chart reads
  \<^verbatim>\<open>AantalBesteld\<close>, the one kept here.
\<close>

definition missed_sales_by_time_reason ::
  "('d, 'f, 'q, 't, 'p) pandas \<Rightarrow> ('d, 'q) missed_sale_clean list \<Rightarrow> ((period \<times> string) \<times> 'q) list" where
  "missed_sales_by_time_reason L clean =
     groupby_sum L (\<lambda>r. key2 (DatePeriod r) (ms_Reason r)) ms_AantalBesteld clean"

text \<open>The table of the line chart as a function of the missed-sales table as loaded.\<close>

definition MissedByMonthReason ::
  "('d, 'f, 'q, 't, 'p) pandas \<Rightarrow> ('d, 'q) missed_sale list \<Rightarrow> ((period \<times> string) \<times> 'q) list" where
  "MissedByMonthReason L missed_sales =
     missed_sales_by_time_reason L
       (missed_sales_clean L (missed_sales_filtered (missed_sales_to_datetime L missed_sales)))"

text \<open>
  The same steps seen from one loaded row: its date as line 67 parses it, the dtype that
  line 111 settles for the quantity column, its quantity as line 111 converts it, and,
  for a month and a reason, the converted quantities that are not null of the flagged
  loaded rows with that month and that translated reason.
\<close>

definition parsed_date ::
  "('d, 'f, 'q, 't, 'p) pandas \<Rightarrow> ('d, 'q) missed_sale list \<Rightarrow> ('d, 'q) missed_sale \<Rightarrow> 'd date_cell" where
  "parsed_date L missed_sales r = to_datetime_coerce L (missed_date_format L missed_sales) (ms_Date r)"

definition quantity_dtype :: "('d, 'f, 'q, 't, 'p) pandas \<Rightarrow> ('d, 'q) missed_sale list \<Rightarrow> 't" where
  "quantity_dtype L missed_sales =
     to_numeric_dtype L
       (ms_AantalBesteld `
          set (missed_sales_dropna (missed_sales_filtered (missed_sales_to_datetime L missed_sales))))"

definition numeric_quantity ::
  "('d, 'f, 'q, 't, 'p) pandas \<Rightarrow> ('d, 'q) missed_sale list \<Rightarrow> ('d, 'q) missed_sale \<Rightarrow> 'q" where
  "numeric_quantity L missed_sales r =
     to_numeric_cell L (quantity_dtype L missed_sales) (ms_AantalBesteld r)"

definition month_reason_cells ::
  "('d, 'f, 'q, 't, 'p) pandas \<Rightarrow> ('d, 'q) missed_sale list \<Rightarrow> period \<times> string \<Rightarrow> 'q list" where
  "month_reason_cells L missed_sales k =
     filter (\<lambda>c. \<not> isna L c)
       (map (numeric_quantity L missed_sales)
          (filter (\<lambda>r. ms_GEMISTEVERKOOPFLG r = Some 1
                       \<and> key2 (to_period_M (parsed_date L missed_sales r))
                            (series_map reason_translation (ms_Reason r)) = Some k)
             missed_sales))"

subsection \<open>Lines 151-216: totals by customer type and by city\<close>

definition missed_sales_merged ::
  "('d, 'q) missed_sale_clean list \<Rightarrow> 'p customer list
     \<Rightarrow> (('d, 'q) missed_sale_clean \<times> 'p customer) list" where
  "missed_sales_merged clean customer_data =
     merge_inner ms_CustomerNbr c_CustomerNbr clean customer_data"

definition actual_sales_merged ::
  "('d, 'q) actual_sale list \<Rightarrow> 'p customer list \<Rightarrow> (('d, 'q) actual_sale \<times> 'p customer) list" where
  "actual_sales_merged actual_sales customer_data =
     merge_inner as_CustomerNbr c_CustomerNbr actual_sales customer_data"

text \<open>Lines 172-173: the column \<^verbatim>\<open>CustomerTypeTranslated\<close> of a merged row.\<close>

definition CustomerTypeTranslated :: "'s \<times> 'p customer \<Rightarrow> string option" where
  "CustomerTypeTranslated row = series_replace customer_type_translations (c_CustomerType (snd row))"

text \<open>
  Lines 180-181 and 215-216. The missed sales are summed over the converted quantity, the
  actual sales over \<^verbatim>\<open>SaleQuantity\<close> as it was loaded.
\<close>

definition missed_sales_by_customer_type ::
  "('d, 'f, 'q, 't, 'p) pandas \<Rightarrow> (('d, 'q) missed_sale_clean \<times> 'p customer) list
     \<Rightarrow> (string \<times> 'q) list" where
  "missed_sales_by_customer_type L merged =
     groupby_sum L CustomerTypeTranslated (\<lambda>row. ms_AantalBesteld (fst row)) merged"

definition actual_sales_by_customer_type ::
  "('d, 'f, 'q, 't, 'p) pandas \<Rightarrow> (('d, 'q) actual_sale \<times> 'p customer) list \<Rightarrow> (string \<times> 'q) list" where
  "actual_sales_by_customer_type L merged =
     groupby_sum L CustomerTypeTranslated (\<lambda>row. as_SaleQuantity (fst row)) merged"

definition missed_sales_by_city ::
  "('d, 'f, 'q, 't, 'p) pandas \<Rightarrow> (('d, 'q) missed_sale_clean \<times> 'p customer) list
     \<Rightarrow> (string \<times> 'q) list" where
  "missed_sales_by_city L merged =
     groupby_sum L (\<lambda>row. c_CustomerCity (snd row)) (\<lambda>row. ms_AantalBesteld (fst row)) merged"

definition actual_sales_by_city ::
  "('d, 'f, 'q, 't, 'p) pandas \<Rightarrow> (('d, 'q) actual_sale \<times> 'p customer) list \<Rightarrow> (string \<times> 'q) list" where
  "actual_sales_by_city L merged =
     groupby_sum L (\<lambda>row. c_CustomerCity (snd row)) (\<lambda>row. as_SaleQuantity (fst row)) merged"

subsection \<open>Lines 246-302: totals by city with coordinates\<close>

text \<open>
  Lines 247-249 overwrite the city and postal code columns of the loaded customer table,
  and the postal code column of the loaded lookup table, with their string conversion.
\<close>

definition customer_astype_str :: "('d, 'f, 'q, 't, 'p) pandas \<Rightarrow> 'p customer \<Rightarrow> 'p customer" where
  "customer_astype_str L c =
     c\<lparr>c_CustomerCity := astype_str_opt L (c_CustomerCity c),
       c_CustomerPostalCode := astype_str L (c_CustomerPostalCode c)\<rparr>"

definition customer_data_astype ::
  "('d, 'f, 'q, 't, 'p) pandas \<Rightarrow> 'p customer list \<Rightarrow> 'p customer list" where
  "customer_data_astype L customer_data = map (customer_astype_str L) customer_data"

definition postal_code_data_astype ::
  "('d, 'f, 'q, 't, 'p) pandas \<Rightarrow> 'p postal_location list \<Rightarrow> 'p postal_location list" where
  "postal_code_data_astype L postal_code_data =
     map (\<lambda>p. p\<lparr>pc_CustomerPostalCode := astype_str L (pc_CustomerPostalCode p)\<rparr>) postal_code_data"

text \<open>
  Lines 252-268: the two DuckDB queries, which read the Parquet files again (the tables as
  loaded). The result keeps the pair of joined rows; the statements below read the
  selected columns only.
\<close>

definition missed_sales_query ::
  "('d, 'q) missed_sale list \<Rightarrow> 'p customer list \<Rightarrow> (('d, 'q) missed_sale \<times> 'p customer) list" where
  "missed_sales_query ms c =
     filter (\<lambda>row. ms_GEMISTEVERKOOPFLG (fst row) = Some 1)
       (sql_inner_join ms_CustomerNbr c_CustomerNbr ms c)"

definition actual_sales_query ::
  "('d, 'q) actual_sale list \<Rightarrow> 'p customer list \<Rightarrow> (('d, 'q) actual_sale \<times> 'p customer) list" where
  "actual_sales_query s c = sql_inner_join as_CustomerNbr c_CustomerNbr s c"

text \<open>
  Lines 271-288, the same statements for both query results: convert city and postal code
  to strings, left-join the lookup table on the postal code, replace null coordinates by
  0, and drop the rows with a coordinate equal to 0.
\<close>

definition merged_astype ::
  "('d, 'f, 'q, 't, 'p) pandas \<Rightarrow> ('s \<times> 'p customer) list \<Rightarrow> ('s \<times> 'p customer) list" where
  "merged_astype L merged = map (\<lambda>row. (fst row, customer_astype_str L (snd row))) merged"

definition merge_postal ::
  "('s \<times> 'p customer) list \<Rightarrow> 'p postal_location list
     \<Rightarrow> (('s \<times> 'p customer) \<times> 'p postal_location option) list" where
  "merge_postal merged postal_code_data =
     merge_left (\<lambda>row. c_CustomerPostalCode (snd row)) pc_CustomerPostalCode merged postal_code_data"

definition fillna0 :: "rat option \<Rightarrow> rat" where
  "fillna0 x = (case x of Some v \<Rightarrow> v | None \<Rightarrow> 0)"

definition fill_coordinates ::
  "(('s \<times> 'p customer) \<times> 'p postal_location option) list \<Rightarrow> (('s \<times> 'p customer) \<times> rat \<times> rat) list" where
  "fill_coordinates merged =
     map (\<lambda>row. (fst row, fillna0 (Option.bind (snd row) pc_Latitude),
                           fillna0 (Option.bind (snd row) pc_Longitude))) merged"

definition sales_clean_geo ::
  "(('s \<times> 'p customer) \<times> rat \<times> rat) list \<Rightarrow> (('s \<times> 'p customer) \<times> rat \<times> rat) list" where
  "sales_clean_geo merged = filter (\<lambda>row. fst (snd row) \<noteq> 0 \<and> snd (snd row) \<noteq> 0) merged"

definition sales_located ::
  "('d, 'f, 'q, 't, 'p) pandas \<Rightarrow> ('s \<times> 'p customer) list \<Rightarrow> 'p postal_location list
     \<Rightarrow> (('s \<times> 'p customer) \<times> rat \<times> rat) list" where
  "sales_located L query_result postal_code_data =
     sales_clean_geo (fill_coordinates (merge_postal (merged_astype L query_result) postal_code_data))"

text \<open>
  Lines 297-298 sum the quantity, as it was loaded, by city and coordinates. Lines 301-302
  go through the totals in their order and compute \<^verbatim>\<open>max(x / 10000, 1)\<close> for each; on a
  total that is not a number (the quantity column holds text) the division raises
  \<^verbatim>\<open>TypeError\<close>, and no table results.
\<close>

definition MarkerSize :: "rat \<Rightarrow> rat" where
  "MarkerSize x = max (x / 10000) 1"

fun with_marker_size ::
  "('d, 'f, 'q, 't, 'p) pandas \<Rightarrow> ('k \<times> 'q) list \<Rightarrow> error + ('k \<times> 'q \<times> rat) list" where
  "with_marker_size L [] = Inr []"
| "with_marker_size L (g # gs) =
     (case number L (snd g) of
        None \<Rightarrow> Inl TypeError
      | Some x \<Rightarrow>
          (case with_marker_size L gs of
             Inl e \<Rightarrow> Inl e
           | Inr sized \<Rightarrow> Inr ((fst g, snd g, MarkerSize x) # sized)))"

definition sales_by_city_geo ::
  "('d, 'f, 'q, 't, 'p) pandas \<Rightarrow> ('s \<Rightarrow> 'q) \<Rightarrow> (('s \<times> 'p customer) \<times> rat \<times> rat) list
     \<Rightarrow> error + ((string \<times> rat \<times> rat) \<times> 'q \<times> rat) list" where
  "sales_by_city_geo L quantity clean =
     with_marker_size L
       (groupby_sum L (\<lambda>row. map_option (\<lambda>city. (city, snd row)) (c_CustomerCity (snd (fst row))))
          (\<lambda>row. quantity (fst (fst row))) clean)"

definition missed_sales_by_city_geo ::
  "('d, 'f, 'q, 't, 'p) pandas \<Rightarrow> ('d, 'q) missed_sale list \<Rightarrow> 'p customer list
     \<Rightarrow> 'p postal_location list \<Rightarrow> error + ((string \<times> rat \<times> rat) \<times> 'q \<times> rat) list" where
  "missed_sales_by_city_geo L missed_file customer_file postal_code_data =
     sales_by_city_geo L ms_AantalBesteld
       (sales_located L (missed_sales_query missed_file customer_file) postal_code_data)"

definition actual_sales_by_city_geo ::
  "('d, 'f, 'q, 't, 'p) pandas \<Rightarrow> ('d, 'q) actual_sale list \<Rightarrow> 'p customer list
     \<Rightarrow> 'p postal_location list \<Rightarrow> error + ((string \<times> rat \<times> rat) \<times> 'q \<times> rat) list" where
  "actual_sales_by_city_geo L sales_file customer_file postal_code_data =
     sales_by_city_geo L as_SaleQuantity
       (sales_located L (actual_sales_query sales_file customer_file) postal_code_data)"

subsection \<open>The script as a whole\<close>

text \<open>
  The four loaded tables are the script's mutable state; the seven tables given to the
  charts are its result. The statements run in the order of the script: the DuckDB
  queries read the files, that is the tables as they were loaded, and the lookup table
  that is joined in line 277 is the one converted in line 249. The two map tables are
  the last to be computed: where line 301 raises, the script stops, so line 302 gives
  the second map table only if the first exists. The five tables before them have been
  charted by then, and the loaded tables have been overwritten.
\<close>

record ('d, 'q, 'p) frames =
  missed_sales :: "('d, 'q) missed_sale list"
  actual_sales :: "('d, 'q) actual_sale list"
  customer_data :: "'p customer list"
  postal_code_data :: "'p postal_location list"

record 'q charts =
  line_missed_by_time_reason :: "((period \<times> string) \<times> 'q) list"
  bar_missed_by_customer_type :: "(string \<times> 'q) list"
  bar_actual_by_customer_type :: "(string \<times> 'q) list"
  bar_missed_by_city :: "(string \<times> 'q) list"
  bar_actual_by_city :: "(string \<times> 'q) list"
  map_missed_by_city :: "error + ((string \<times> rat \<times> rat) \<times> 'q \<times> rat) list"
  map_actual_by_city :: "error + ((string \<times> rat \<times> rat) \<times> 'q \<times> rat) list"

definition convert_dates ::
  "('d, 'f, 'q, 't, 'p) pandas \<Rightarrow> ('d, 'q, 'p) frames \<Rightarrow> ('d, 'q, 'p) frames" where
  "convert_dates L F =
     F\<lparr>missed_sales := missed_sales_to_datetime L (missed_sales F),
       actual_sales := actual_sales_to_datetime L (actual_sales F)\<rparr>"

definition convert_strings ::
  "('d, 'f, 'q, 't, 'p) pandas \<Rightarrow> ('d, 'q, 'p) frames \<Rightarrow> ('d, 'q, 'p) frames" where
  "convert_strings L F =
     F\<lparr>customer_data := customer_data_astype L (customer_data F),
       postal_code_data := postal_code_data_astype L (postal_code_data F)\<rparr>"

definition dashboard ::
  "('d, 'f, 'q, 't, 'p) pandas \<Rightarrow> ('d, 'q, 'p) frames \<Rightarrow> ('d, 'q, 'p) frames \<times> 'q charts" where
  "dashboard L files =
     (let F1 = convert_dates L files;
          clean = missed_sales_clean L (missed_sales_filtered (missed_sales F1));
          by_time_reason = missed_sales_by_time_reason L clean;
          m_merged = missed_sales_merged clean (customer_data F1);
          a_merged = actual_sales_merged (actual_sales F1) (customer_data F1);
          F2 = convert_strings L F1;
          map_missed =
            missed_sales_by_city_geo L (missed_sales files) (customer_data files) (postal_code_data F2)
      in (F2,
          \<lparr>line_missed_by_time_reason = by_time_reason,
           bar_missed_by_customer_type = missed_sales_by_customer_type L m_merged,
           bar_actual_by_customer_type = actual_sales_by_customer_type L a_merged,
           bar_missed_by_city = missed_sales_by_city L m_merged,
           bar_actual_by_city = actual_sales_by_city L a_merged,
           map_missed_by_city = map_missed,
           map_actual_by_city =
             (case map_missed of
                Inl e \<Rightarrow> Inl e
              | Inr sized \<Rightarrow>
                  actual_sales_by_city_geo L (actual_sales files) (customer_data files)
                    (postal_code_data F2))\<rparr>))"


subsection \<open>A small data set\<close>

text \<open>
  Test data for the properties below. Dates are loaded as strings; the quantity columns
  are int64 columns, so no quantity is null, \<^verbatim>\<open>to_numeric\<close> leaves the cells as they are,
  and sums wrap around at 64 bits. The format of a date column is the format of its
  first cell that is not null: \<^verbatim>\<open>%Y-%m-%d\<close> for \<^verbatim>\<open>2024-01-15\<close>, \<^verbatim>\<open>%d/%m/%Y\<close> for
  \<^verbatim>\<open>20/01/2024\<close>, and a cell parses only if it is written in the format of its column.
  Customer 1 (Gent, postal code in the lookup table) has five flagged missed sales: two
  with the reason \<^verbatim>\<open>"stock 0"\<close> (the example of the spec), one without a reason, one with a
  reason the dictionary does not know, and one with a date that does not parse. Customer
  3 (Brugge) has a type the dictionary does not know and a postal code the lookup table
  does not list. Customer number 2 does not exist.
\<close>

definition int64_sum :: "int list \<Rightarrow> int" where
  "int64_sum xs = (sum_list xs + 2 ^ 63) mod 2 ^ 64 - 2 ^ 63"

definition sample_pandas :: "(string, string, int, unit, unit) pandas" where
  "sample_pandas =
     \<lparr>guess_format_for_array =
        (\<lambda>column. case List.find (\<lambda>c. c \<noteq> NaT) column of
                     Some (Raw x) \<Rightarrow>
                       map_of [(''2024-01-15'', ''%Y-%m-%d''), (''2024-01-20'', ''%Y-%m-%d''),
                               (''20/01/2024'', ''%d/%m/%Y'')] x
                   | _ \<Rightarrow> None),
      strptime =
        (\<lambda>fmt x. map_of [((Some ''%Y-%m-%d'', ''2024-01-15''), \<lparr>year = 2024, month = 1, day = 15\<rparr>),
                         ((Some ''%Y-%m-%d'', ''2024-01-20''), \<lparr>year = 2024, month = 1, day = 20\<rparr>),
                         ((Some ''%d/%m/%Y'', ''20/01/2024''), \<lparr>year = 2024, month = 1, day = 20\<rparr>)]
                    (fmt, x)),
      to_numeric_dtype = (\<lambda>cells. ()),
      to_numeric_cell = (\<lambda>dtype c. c),
      isna = (\<lambda>c. False),
      col_sum = int64_sum,
      number = (\<lambda>c. Some (of_int c)),
      str = (\<lambda>u. ''nan''),
      str_null = ''nan''\<rparr>"

definition sample_missed :: "(string, int) missed_sale list" where
  "sample_missed =
     [\<lparr>ms_CustomerNbr = Some 1, ms_Date = Raw ''2024-01-15'', ms_AantalBesteld = 5,
       ms_GEMISTEVERKOOPFLG = Some 1, ms_Reason = Some ''stock 0''\<rparr>,
      \<lparr>ms_CustomerNbr = Some 1, ms_Date = Raw ''2024-01-20'', ms_AantalBesteld = 3,
       ms_GEMISTEVERKOOPFLG = Some 1, ms_Reason = Some ''stock 0''\<rparr>,
      \<lparr>ms_CustomerNbr = Some 1, ms_Date = Raw ''2024-01-20'', ms_AantalBesteld = 7,
       ms_GEMISTEVERKOOPFLG = Some 1, ms_Reason = None\<rparr>,
      \<lparr>ms_CustomerNbr = Some 1, ms_Date = Raw ''2024-01-20'', ms_AantalBesteld = 11,
       ms_GEMISTEVERKOOPFLG = Some 1, ms_Reason = Some ''niet op voorraad''\<rparr>,
      \<lparr>ms_CustomerNbr = Some 1, ms_Date = Raw ''yesterday'', ms_AantalBesteld = 13,
       ms_GEMISTEVERKOOPFLG = Some 1, ms_Reason = Some ''stock 0''\<rparr>]"

definition sample_actual :: "(string, int) actual_sale list" where
  "sample_actual =
     [\<lparr>as_CustomerNbr = Some 1, as_Date = Raw ''2024-01-15'', as_SaleQuantity = 40000\<rparr>,
      \<lparr>as_CustomerNbr = Some 3, as_Date = Raw ''2024-01-20'', as_SaleQuantity = 10\<rparr>]"

definition sample_customers :: "unit customer list" where
  "sample_customers =
     [\<lparr>c_CustomerNbr = Some 1, c_CustomerType = Some ''Lid'', c_CustomerCity = Some ''Gent'',
       c_CustomerPostalCode = Str ''9000''\<rparr>,
      \<lparr>c_CustomerNbr = Some 3, c_CustomerType = Some ''Groothandel'', c_CustomerCity = Some ''Brugge'',
       c_CustomerPostalCode = Str ''8000''\<rparr>]"

definition sample_postal :: "unit postal_location list" where
  "sample_postal =
     [\<lparr>pc_CustomerPostalCode = Str ''9000'', pc_Latitude = Some (5105 / 100), pc_Longitude = Some (372 / 100)\<rparr>]"

definition sample_files :: "(string, int, unit) frames" where
  "sample_files =
     \<lparr>missed_sales = sample_missed, actual_sales = sample_actual,
      customer_data = sample_customers, postal_code_data = sample_postal\<rparr>"

section \<open>Properties\<close>

subsection \<open>Loading\<close>

text \<open>
  C10. A path whose extension is neither \<^verbatim>\<open>.csv\<close> nor \<^verbatim>\<open>.parquet\<close> makes \<open>load_data\<close> raise
  \<^verbatim>\<open>ValueError("Unsupported file format")\<close>, whatever the two readers would do (neither is
  called, there is no fallback); for a \<^verbatim>\<open>.csv\<close> or \<^verbatim>\<open>.parquet\<close> path the result is exactly
  what the reader of that format returns.
\<close>

theorem load_data_extension:
  "(snd (splitext p) \<noteq> ''.csv'' \<and> snd (splitext p) \<noteq> ''.parquet''
      \<longrightarrow> load_data rc rp p = Inl (ValueError ''Unsupported file format''))
   \<and> (snd (splitext p) = ''.csv'' \<longrightarrow> load_data rc rp p = rc p)
   \<and> (snd (splitext p) = ''.parquet'' \<longrightarrow> load_data rc rp p = rp p)"
  by (simp add: load_data_def Let_def)

theorem load_data_extension_witness:
  "load_data (\<lambda>f. Inr (''csv'', f)) (\<lambda>f. Inr (''parquet'', f)) ''./data/CustomerCityPC.xlsx''
     = Inl (ValueError ''Unsupported file format'')
   \<and> load_data (\<lambda>f. Inr (''csv'', f)) (\<lambda>f. Inr (''parquet'', f)) ''./data/Customer.parquet''
     = Inr (''parquet'', ''./data/Customer.parquet'')
   \<and> load_data (\<lambda>f. Inr (''csv'', f)) (\<lambda>f. Inr (''parquet'', f)) ''sales.csv''
     = Inr (''csv'', ''sales.csv'')"
proof -
  let ?rc = "\<lambda>f::string. Inr (''csv'', f) :: error + (string \<times> string)"
  let ?rp = "\<lambda>f::string. Inr (''parquet'', f) :: error + (string \<times> string)"
  have x: "snd (splitext ''./data/CustomerCityPC.xlsx'') = ''.xlsx''" by code_simp
  have p: "snd (splitext ''./data/Customer.parquet'') = ''.parquet''" by code_simp
  have c: "snd (splitext ''sales.csv'') = ''.csv''" by code_simp
  have "load_data ?rc ?rp ''./data/CustomerCityPC.xlsx'' = Inl (ValueError ''Unsupported file format'')"
    using load_data_extension [of "''./data/CustomerCityPC.xlsx''" ?rc ?rp] x by simp
  moreover have "load_data ?rc ?rp ''./data/Customer.parquet'' = Inr (''parquet'', ''./data/Customer.parquet'')"
    using load_data_extension [of "''./data/Customer.parquet''" ?rc ?rp] p by simp
  moreover have "load_data ?rc ?rp ''sales.csv'' = Inr (''csv'', ''sales.csv'')"
    using load_data_extension [of "''sales.csv''" ?rc ?rp] c by simp
  ultimately show ?thesis by simp
qed

subsection \<open>The two translations\<close>

lemma customer_type_values_all:
  "list_all (\<lambda>kv. map_of customer_type_translations (snd kv) = (if snd kv = fst kv then Some (snd kv) else None))
     customer_type_translations"
  by code_simp

lemma reason_values_all:
  "list_all (\<lambda>kv. map_of reason_translation (snd kv) = (if fst kv = ''stock 0'' then Some (snd kv) else None))
     reason_translation"
  by code_simp

lemma customer_type_values:
  "(k, v) \<in> set customer_type_translations \<Longrightarrow>
     map_of customer_type_translations v = (if v = k then Some v else None)"
  using customer_type_values_all by (auto simp: list_all_iff)

lemma reason_values:
  "(k, v) \<in> set reason_translation \<Longrightarrow>
     map_of reason_translation v = (if k = ''stock 0'' then Some v else None)"
  using reason_values_all by (auto simp: list_all_iff)

text \<open>
  C3, as stated, fails for the Reason translation: \<^verbatim>\<open>"doorbesteld"\<close> is translated to
  \<^verbatim>\<open>"reordered"\<close>, which is not a key of the dictionary, so a second \<^verbatim>\<open>map\<close> gives null.
\<close>

theorem reason_twice_counterexample:
  "series_map reason_translation (series_map reason_translation (Some ''doorbesteld''))
     \<noteq> series_map reason_translation (Some ''doorbesteld'')"
  by (simp add: series_map_def reason_translation_def)

text \<open>
  C3, amended. Both translations are functions of the label alone. Replacing the
  customer type twice gives what replacing it once gives. Mapping the Reason twice gives
  what mapping it once gives exactly when the first mapping already gave null, or the
  label is \<^verbatim>\<open>"stock 0"\<close> (the one key that is translated to itself).
\<close>

theorem translation_twice:
  "series_replace customer_type_translations (series_replace customer_type_translations x)
     = series_replace customer_type_translations x
   \<and> (series_map reason_translation (series_map reason_translation x) = series_map reason_translation x
        \<longleftrightarrow> series_map reason_translation x = None \<or> x = Some ''stock 0'')"
proof
  show "series_replace customer_type_translations (series_replace customer_type_translations x)
     = series_replace customer_type_translations x"
  proof (cases x)
    case None
    then show ?thesis by (simp add: series_replace_def)
  next
    case (Some s)
    note x = this
    show ?thesis
    proof (cases "map_of customer_type_translations s")
      case None
      with x show ?thesis by (simp add: series_replace_def)
    next
      case (Some v)
      then have "(s, v) \<in> set customer_type_translations" by (rule map_of_SomeD)
      from customer_type_values [OF this] Some x show ?thesis
        by (simp add: series_replace_def split: if_splits)
    qed
  qed
next
  show "series_map reason_translation (series_map reason_translation x) = series_map reason_translation x
        \<longleftrightarrow> series_map reason_translation x = None \<or> x = Some ''stock 0''"
  proof (cases "series_map reason_translation x")
    case None
    then show ?thesis by (simp add: series_map_def)
  next
    case (Some v)
    then obtain s where x: "x = Some s" and m: "map_of reason_translation s = Some v"
      by (auto simp: series_map_def split: option.splits)
    from m have "(s, v) \<in> set reason_translation" by (rule map_of_SomeD)
    from reason_values [OF this]
    have v: "map_of reason_translation v = (if s = ''stock 0'' then Some v else None)" .
    show ?thesis using x m v by (auto simp: series_map_def)
  qed
qed

subsection \<open>Grouped sums\<close>

lemma groupby_sum_keys:
  "map fst (groupby_sum L key val rows) = sort (remdups (List.map_filter key rows))"
  by (simp add: groupby_sum_def o_def)

lemma set_map_filter_key: "set (List.map_filter key rows) = {k. \<exists>r\<in>set rows. key r = Some k}"
  by (induction rows) (auto split: option.splits)

lemma groupby_sum_key_set:
  "fst ` set (groupby_sum L key val rows) = {k. \<exists>r\<in>set rows. key r = Some k}"
proof -
  have "fst ` set (groupby_sum L key val rows) = set (map fst (groupby_sum L key val rows))" by simp
  also have "\<dots> = set (List.map_filter key rows)" by (simp only: groupby_sum_keys set_sort set_remdups)
  finally show ?thesis by (simp add: set_map_filter_key)
qed

lemma groupby_sum_distinct: "distinct (map fst (groupby_sum L key val rows))"
  by (simp only: groupby_sum_keys distinct_sort distinct_remdups)

lemma groupby_sum_sorted: "sorted (map fst (groupby_sum L key val rows))"
  by (simp only: groupby_sum_keys sorted_sort)

lemma groupby_sum_entry:
  "g \<in> set (groupby_sum L key val rows) \<Longrightarrow>
     snd g = col_sum L (filter (\<lambda>c. \<not> isna L c) (map val (filter (\<lambda>r. key r = Some (fst g)) rows)))"
  by (auto simp: groupby_sum_def)

lemma groupby_sum_group:
  assumes "r \<in> set rows" and "key r = Some k"
  shows "(k, col_sum L (filter (\<lambda>c. \<not> isna L c) (map val (filter (\<lambda>r. key r = Some k) rows))))
           \<in> set (groupby_sum L key val rows)"
proof -
  from assms have "k \<in> set (List.map_filter key rows)" by (auto simp: set_map_filter_key)
  then have "k \<in> set (sort (remdups (List.map_filter key rows)))" by simp
  then show ?thesis unfolding groupby_sum_def by (simp add: image_iff)
qed

lemma map_filter_map: "List.map_filter key (map h rows) = List.map_filter (\<lambda>r. key (h r)) rows"
  by (induction rows) (simp_all split: option.splits)

lemma groupby_sum_map:
  "groupby_sum L key val (map h rows) = groupby_sum L (\<lambda>r. key (h r)) (\<lambda>r. val (h r)) rows"
  by (simp add: groupby_sum_def map_filter_map filter_map o_def)

lemma groupby_sum_mset:
  assumes "mset rows = mset rows'"
    and "\<forall>xs ys. mset xs = mset ys \<longrightarrow> col_sum L xs = col_sum L ys"
  shows "groupby_sum L key val rows = groupby_sum L key val rows'"
proof -
  from assms(1) have "set rows = set rows'" by (rule mset_eq_setD)
  then have "set (List.map_filter key rows) = set (List.map_filter key rows')"
    by (simp add: set_map_filter_key)
  then have "sorted_list_of_set (set (List.map_filter key rows))
      = sorted_list_of_set (set (List.map_filter key rows'))" by simp
  then have keys: "sort (remdups (List.map_filter key rows)) = sort (remdups (List.map_filter key rows'))"
    by (simp only: sorted_list_of_set_sort_remdups)
  have "col_sum L (filter (\<lambda>c. \<not> isna L c) (map val (filter (\<lambda>r. key r = Some k) rows)))
      = col_sum L (filter (\<lambda>c. \<not> isna L c) (map val (filter (\<lambda>r. key r = Some k) rows')))" for k
  proof -
    have "mset (filter (\<lambda>c. \<not> isna L c) (map val (filter (\<lambda>r. key r = Some k) rows)))
        = mset (filter (\<lambda>c. \<not> isna L c) (map val (filter (\<lambda>r. key r = Some k) rows')))"
      by (simp add: assms(1))
    with assms(2) show ?thesis by blast
  qed
  with keys show ?thesis by (simp add: groupby_sum_def)
qed

lemma sum_list_single_key:
  "distinct ks \<Longrightarrow> sum_list (map (\<lambda>k. if a = k then (v::rat) else 0) ks) = (if a \<in> set ks then v else 0)"
  by (induction ks) auto

lemma regroup:
  fixes f :: "'r \<Rightarrow> rat"
  assumes "distinct ks"
  shows "(\<forall>r\<in>set rows. \<forall>k. key r = Some k \<longrightarrow> k \<in> set ks) \<Longrightarrow>
    sum_list (map (\<lambda>k. sum_list (map f (filter (\<lambda>r. key r = Some k) rows))) ks)
      = sum_list (map f (filter (\<lambda>r. key r \<noteq> None) rows))"
proof (induction rows)
  case Nil
  then show ?case by simp
next
  case (Cons r rs)
  have split: "\<And>k. sum_list (map f (filter (\<lambda>r. key r = Some k) (r # rs)))
      = (if key r = Some k then f r else 0) + sum_list (map f (filter (\<lambda>r. key r = Some k) rs))"
    by simp
  have "sum_list (map (\<lambda>k. sum_list (map f (filter (\<lambda>r. key r = Some k) (r # rs)))) ks)
      = sum_list (map (\<lambda>k. if key r = Some k then f r else 0) ks)
        + sum_list (map (\<lambda>k. sum_list (map f (filter (\<lambda>r. key r = Some k) rs))) ks)"
    by (simp only: split sum_list_addf)
  also have "sum_list (map (\<lambda>k. sum_list (map f (filter (\<lambda>r. key r = Some k) rs))) ks)
      = sum_list (map f (filter (\<lambda>r. key r \<noteq> None) rs))"
    using Cons by simp
  also have "sum_list (map (\<lambda>k. if key r = Some k then f r else 0) ks) = (if key r \<noteq> None then f r else 0)"
  proof (cases "key r")
    case None
    then show ?thesis by simp
  next
    case (Some a)
    with Cons.prems have "a \<in> set ks" by simp
    with sum_list_single_key [OF assms, of a "f r"] Some show ?thesis by simp
  qed
  finally show ?case by simp
qed

lemma regroup_filter:
  fixes f :: "'r \<Rightarrow> rat"
  assumes d: "distinct ks"
    and cover: "\<forall>r\<in>set rows. \<forall>k. key r = Some k \<and> P k \<longrightarrow> k \<in> set ks"
  shows "sum_list (map (\<lambda>k. sum_list (map f (filter (\<lambda>r. key r = Some k) rows))) (filter P ks))
     = sum_list (map f (filter (\<lambda>r. case key r of Some k \<Rightarrow> P k | None \<Rightarrow> False) rows))"
proof -
  let ?key' = "\<lambda>r. case key r of Some k \<Rightarrow> if P k then Some k else None | None \<Rightarrow> None"
  have d': "distinct (filter P ks)" using d by simp
  have cover': "\<forall>r\<in>set rows. \<forall>k. ?key' r = Some k \<longrightarrow> k \<in> set (filter P ks)"
    using cover by (auto split: option.splits if_splits)
  have same: "\<And>k. k \<in> set (filter P ks) \<Longrightarrow>
      filter (\<lambda>r. key r = Some k) rows = filter (\<lambda>r. ?key' r = Some k) rows"
    by (intro filter_cong) (auto split: option.splits)
  have "sum_list (map (\<lambda>k. sum_list (map f (filter (\<lambda>r. key r = Some k) rows))) (filter P ks))
      = sum_list (map (\<lambda>k. sum_list (map f (filter (\<lambda>r. ?key' r = Some k) rows))) (filter P ks))"
    by (intro arg_cong [where f = sum_list] map_cong refl) (simp only: same)
  also have "\<dots> = sum_list (map f (filter (\<lambda>r. ?key' r \<noteq> None) rows))"
    by (rule regroup [OF d' cover'])
  also have "filter (\<lambda>r. ?key' r \<noteq> None) rows
      = filter (\<lambda>r. case key r of Some k \<Rightarrow> P k | None \<Rightarrow> False) rows"
    by (intro filter_cong) (auto split: option.splits)
  finally show ?thesis .
qed

subsection \<open>The cleaned missed sales in one step\<close>

lemma parsed_date_format:
  "missed_date_format L ms = missed_date_format L ms' \<Longrightarrow> parsed_date L ms = parsed_date L ms'"
  by (rule ext) (simp add: parsed_date_def)

lemma dropna_of_loaded:
  "missed_sales_dropna (missed_sales_filtered (missed_sales_to_datetime L ms))
     = map (\<lambda>r. r\<lparr>ms_Date := parsed_date L ms r, ms_Reason := series_map reason_translation (ms_Reason r)\<rparr>)
         (filter (\<lambda>r. ms_GEMISTEVERKOOPFLG r = Some 1 \<and> parsed_date L ms r \<noteq> NaT
                      \<and> series_map reason_translation (ms_Reason r) \<noteq> None) ms)"
  by (simp add: missed_sales_dropna_def missed_sales_filtered_def missed_sales_to_datetime_def
      parsed_date_def filter_map o_def conj_commute conj_left_commute)

lemma clean_of_loaded:
  "missed_sales_clean L (missed_sales_filtered (missed_sales_to_datetime L ms))
     = map (\<lambda>r. \<lparr>ms_CustomerNbr = ms_CustomerNbr r, ms_Date = parsed_date L ms r,
               ms_AantalBesteld = numeric_quantity L ms r,
               ms_GEMISTEVERKOOPFLG = ms_GEMISTEVERKOOPFLG r,
               ms_Reason = series_map reason_translation (ms_Reason r),
               DatePeriod = to_period_M (parsed_date L ms r)\<rparr>)
         (filter (\<lambda>r. ms_GEMISTEVERKOOPFLG r = Some 1 \<and> parsed_date L ms r \<noteq> NaT
                      \<and> series_map reason_translation (ms_Reason r) \<noteq> None) ms)"
  unfolding missed_sales_clean_def Let_def numeric_quantity_def quantity_dtype_def
  unfolding dropna_of_loaded
  by (simp add: o_def)

lemma period_not_NaT: "to_period_M c = Some m \<Longrightarrow> c \<noteq> NaT"
  by (cases c) auto

lemma quantity_dtype_cong:
  assumes "set ms = set ms'" and "missed_date_format L ms = missed_date_format L ms'"
  shows "quantity_dtype L ms = quantity_dtype L ms'"
  unfolding quantity_dtype_def dropna_of_loaded parsed_date_format [OF assms(2)]
  using assms(1) by simp

lemma numeric_quantity_cong:
  assumes "set ms = set ms'" and "missed_date_format L ms = missed_date_format L ms'"
  shows "numeric_quantity L ms = numeric_quantity L ms'"
  by (rule ext) (simp add: numeric_quantity_def quantity_dtype_cong [OF assms])

subsection \<open>Joins, up to the order of rows\<close>

lemma mset_merge_inner:
  "mset (merge_inner lkey rkey left right)
     = (\<Sum>l\<in>#mset left. image_mset (Pair l) (filter_mset (\<lambda>r. rkey r = lkey l) (mset right)))"
  by (induction left) (simp_all add: merge_inner_def)

lemma mset_sql_inner_join:
  "mset (sql_inner_join lkey rkey left right)
     = (\<Sum>l\<in>#mset left. image_mset (Pair l) (filter_mset (\<lambda>r. sql_eq (lkey l) (rkey r)) (mset right)))"
  by (induction left) (simp_all add: sql_inner_join_def)

lemma mset_left_matches:
  "mset (case filter P right of [] \<Rightarrow> [(l, None)] | rs \<Rightarrow> map (\<lambda>r. (l, Some r)) rs)
     = (if filter_mset P (mset right) = {#} then {#(l, None)#}
        else image_mset (\<lambda>r. (l, Some r)) (filter_mset P (mset right)))"
proof -
  have m: "filter_mset P (mset right) = mset (filter P right)" by simp
  show ?thesis
    unfolding m by (cases "filter P right") simp_all
qed

lemma mset_concat_map: "mset (concat (map f xs)) = (\<Sum>x\<in>#mset xs. mset (f x))"
  by (induction xs) simp_all

lemma mset_merge_left:
  "mset (merge_left lkey rkey left right)
     = (\<Sum>l\<in>#mset left. if filter_mset (\<lambda>r. rkey r = lkey l) (mset right) = {#} then {#(l, None)#}
          else image_mset (\<lambda>r. (l, Some r)) (filter_mset (\<lambda>r. rkey r = lkey l) (mset right)))"
  unfolding merge_left_def mset_concat_map mset_left_matches ..

lemma merge_inner_mset_cong:
  "mset l = mset l' \<Longrightarrow> mset r = mset r' \<Longrightarrow>
     mset (merge_inner lk rk l r) = mset (merge_inner lk rk l' r')"
  by (simp add: mset_merge_inner)

lemma sql_inner_join_mset_cong:
  "mset l = mset l' \<Longrightarrow> mset r = mset r' \<Longrightarrow>
     mset (sql_inner_join lk rk l r) = mset (sql_inner_join lk rk l' r')"
  by (simp add: mset_sql_inner_join)

lemma merge_left_mset_cong:
  "mset l = mset l' \<Longrightarrow> mset r = mset r' \<Longrightarrow>
     mset (merge_left lk rk l r) = mset (merge_left lk rk l' r')"
  by (simp only: mset_merge_left)

lemma mset_map_cong: "mset xs = mset ys \<Longrightarrow> mset (map f xs) = mset (map f ys)"
  by (metis mset_map)

lemma mset_filter_cong2: "mset xs = mset ys \<Longrightarrow> mset (filter P xs) = mset (filter P ys)"
  by (metis mset_filter)

lemma clean_mset_cong:
  assumes "mset ms = mset ms'" and "missed_date_format L ms = missed_date_format L ms'"
  shows "mset (missed_sales_clean L (missed_sales_filtered (missed_sales_to_datetime L ms)))
       = mset (missed_sales_clean L (missed_sales_filtered (missed_sales_to_datetime L ms')))"
proof -
  from assms(1) have s: "set ms = set ms'" by (rule mset_eq_setD)
  show ?thesis
    unfolding clean_of_loaded parsed_date_format [OF assms(2)] numeric_quantity_cong [OF s assms(2)]
    by (intro mset_map_cong mset_filter_cong2 assms(1))
qed

lemma sales_located_mset_cong:
  assumes "mset q = mset q'" and "mset ps = mset ps'"
  shows "mset (sales_located L q ps) = mset (sales_located L q' ps')"
  unfolding sales_located_def sales_clean_geo_def fill_coordinates_def merge_postal_def merged_astype_def
  by (intro mset_map_cong mset_filter_cong2 merge_left_mset_cong assms)

lemma missed_sales_query_mset_cong:
  assumes "mset ms = mset ms'" and "mset cs = mset cs'"
  shows "mset (missed_sales_query ms cs) = mset (missed_sales_query ms' cs')"
  unfolding missed_sales_query_def
  by (intro mset_filter_cong2 sql_inner_join_mset_cong assms)

subsection \<open>The charts in terms of the loaded tables\<close>

lemma merge_inner_map_left:
  assumes "\<And>a. lk (h a) = lk a"
  shows "merge_inner lk rk (map h xs) right = map (\<lambda>row. (h (fst row), snd row)) (merge_inner lk rk xs right)"
  by (induction xs) (simp_all add: merge_inner_def assms o_def)

lemma actual_merged_dates:
  "actual_sales_merged (actual_sales_to_datetime L sales) cs
     = map (\<lambda>row. ((fst row)\<lparr>as_Date :=
          to_datetime_coerce L (guess_format_for_array L (map as_Date sales)) (as_Date (fst row))\<rparr>, snd row))
         (actual_sales_merged sales cs)"
  unfolding actual_sales_merged_def actual_sales_to_datetime_def
  by (rule merge_inner_map_left) simp

lemma actual_by_customer_type_dates:
  "actual_sales_by_customer_type L (actual_sales_merged (actual_sales_to_datetime L sales) cs)
     = actual_sales_by_customer_type L (actual_sales_merged sales cs)"
  unfolding actual_sales_by_customer_type_def actual_merged_dates groupby_sum_map
  by (simp add: CustomerTypeTranslated_def [abs_def])

lemma actual_by_city_dates:
  "actual_sales_by_city L (actual_sales_merged (actual_sales_to_datetime L sales) cs)
     = actual_sales_by_city L (actual_sales_merged sales cs)"
  unfolding actual_sales_by_city_def actual_merged_dates groupby_sum_map
  by simp

lemma dashboard_charts:
  "snd (dashboard L F) =
     \<lparr>line_missed_by_time_reason = MissedByMonthReason L (missed_sales F),
      bar_missed_by_customer_type =
        missed_sales_by_customer_type L
          (missed_sales_merged
             (missed_sales_clean L (missed_sales_filtered (missed_sales_to_datetime L (missed_sales F))))
             (customer_data F)),
      bar_actual_by_customer_type =
        actual_sales_by_customer_type L (actual_sales_merged (actual_sales F) (customer_data F)),
      bar_missed_by_city =
        missed_sales_by_city L
          (missed_sales_merged
             (missed_sales_clean L (missed_sales_filtered (missed_sales_to_datetime L (missed_sales F))))
             (customer_data F)),
      bar_actual_by_city =
        actual_sales_by_city L (actual_sales_merged (actual_sales F) (customer_data F)),
      map_missed_by_city =
        sales_by_city_geo L ms_AantalBesteld
          (sales_located L (missed_sales_query (missed_sales F) (customer_data F))
             (postal_code_data_astype L (postal_code_data F))),
      map_actual_by_city =
        (case sales_by_city_geo L ms_AantalBesteld
                (sales_located L (missed_sales_query (missed_sales F) (customer_data F))
                   (postal_code_data_astype L (postal_code_data F))) of
           Inl e \<Rightarrow> Inl e
         | Inr sized \<Rightarrow>
             sales_by_city_geo L as_SaleQuantity
               (sales_located L (actual_sales_query (actual_sales F) (customer_data F))
                  (postal_code_data_astype L (postal_code_data F))))\<rparr>"
  by (simp add: dashboard_def Let_def convert_dates_def convert_strings_def MissedByMonthReason_def
      missed_sales_by_city_geo_def actual_sales_by_city_geo_def actual_by_customer_type_dates
      actual_by_city_dates cong: sum.case_cong)

subsection \<open>The monthly totals\<close>

lemma map_filter_filter_weaken:
  assumes "\<And>r. P r \<Longrightarrow> Q r" and "\<And>r. Q r \<Longrightarrow> \<not> P r \<Longrightarrow> f r = None"
  shows "List.map_filter f (filter P xs) = List.map_filter f (filter Q xs)"
  using assms by (induction xs) (auto simp: List.map_filter_simps split: option.splits)

lemma month_reason_table:
  "MissedByMonthReason L ms
     = map (\<lambda>k. (k, col_sum L (month_reason_cells L ms k)))
         (sort (remdups (List.map_filter
            (\<lambda>r. key2 (to_period_M (parsed_date L ms r)) (series_map reason_translation (ms_Reason r)))
            (filter (\<lambda>r. ms_GEMISTEVERKOOPFLG r = Some 1) ms))))"
proof -
  let ?key = "\<lambda>r. key2 (to_period_M (parsed_date L ms r)) (series_map reason_translation (ms_Reason r))"
  let ?keep = "\<lambda>r. ms_GEMISTEVERKOOPFLG r = Some 1 \<and> parsed_date L ms r \<noteq> NaT
                      \<and> series_map reason_translation (ms_Reason r) \<noteq> None"
  have keyed: "?key r = Some k \<Longrightarrow> parsed_date L ms r \<noteq> NaT \<and> series_map reason_translation (ms_Reason r) \<noteq> None"
    for r k
    by (auto simp: key2_def dest: period_not_NaT split: option.splits)
  have keys: "List.map_filter ?key (filter ?keep ms)
      = List.map_filter ?key (filter (\<lambda>r. ms_GEMISTEVERKOOPFLG r = Some 1) ms)"
  proof (rule map_filter_filter_weaken)
    fix r assume "ms_GEMISTEVERKOOPFLG r = Some 1" and "\<not> ?keep r"
    then show "?key r = None" using keyed [of r] by (cases "?key r") auto
  qed simp
  have cells: "filter (\<lambda>r. ?key r = Some k) (filter ?keep ms)
      = filter (\<lambda>r. ms_GEMISTEVERKOOPFLG r = Some 1 \<and> ?key r = Some k) ms" for k
    unfolding filter_filter by (intro filter_cong refl) (auto dest: keyed)
  have table: "MissedByMonthReason L ms = groupby_sum L ?key (numeric_quantity L ms) (filter ?keep ms)"
    unfolding MissedByMonthReason_def missed_sales_by_time_reason_def clean_of_loaded groupby_sum_map
    by simp
  show ?thesis
    unfolding table groupby_sum_def month_reason_cells_def keys cells ..
qed

lemma cells_sum_rows:
  "sum_list (map cv (filter Q (map nq (filter (\<lambda>r. A r \<and> key r = Some k) rows))))
     = sum_list (map (\<lambda>r. cv (nq r)) (filter (\<lambda>r. (if A r \<and> Q (nq r) then key r else None) = Some k) rows))"
  by (induction rows) auto

lemma month_cells_sum:
  "sum_list (map (cell_value L) (month_reason_cells L ms k))
     = sum_list (map (\<lambda>r. cell_value L (numeric_quantity L ms r))
         (filter (\<lambda>r. (if ms_GEMISTEVERKOOPFLG r = Some 1 \<and> \<not> isna L (numeric_quantity L ms r)
                        then key2 (to_period_M (parsed_date L ms r))
                               (series_map reason_translation (ms_Reason r))
                        else None) = Some k) ms))"
  unfolding month_reason_cells_def
  by (rule cells_sum_rows)

text \<open>
  C1, as stated, fails, for two reasons. A flagged row with a date in the month, a number
  as quantity and a Reason that is not null but is not a key of the dictionary is lost,
  because the lookup of line 98 turns its Reason into null and line 105 drops the row:
  the table has no group, the rows the claim counts sum to 11. And the total of a group
  is the sum pandas computes, which for an int64 column wraps around: two rows of one
  group with the quantities 9223372036854775807 and 1 give the total
  -9223372036854775808, where the quantities sum to 9223372036854775808.
\<close>

theorem month_total_counterexample:
  "sum_list (map (\<lambda>g. cell_value sample_pandas (snd g)) (filter (\<lambda>g. fst (fst g) = (2024, 1))
      (MissedByMonthReason sample_pandas
        [\<lparr>ms_CustomerNbr = Some 1, ms_Date = Raw ''2024-01-20'', ms_AantalBesteld = 11,
          ms_GEMISTEVERKOOPFLG = Some 1, ms_Reason = Some ''niet op voorraad''\<rparr>]))) = 0
   \<and> sum_list (map (\<lambda>r. cell_value sample_pandas (ms_AantalBesteld r))
         (filter (\<lambda>r. ms_GEMISTEVERKOOPFLG r = Some 1
                      \<and> to_period_M (to_datetime_coerce sample_pandas (Some ''%Y-%m-%d'') (ms_Date r))
                          = Some (2024, 1)
                      \<and> ms_Reason r \<noteq> None
                      \<and> number sample_pandas (ms_AantalBesteld r) \<noteq> None)
        [\<lparr>ms_CustomerNbr = Some 1, ms_Date = Raw ''2024-01-20'', ms_AantalBesteld = 11,
          ms_GEMISTEVERKOOPFLG = Some 1, ms_Reason = Some ''niet op voorraad''\<rparr>])) = 11
   \<and> MissedByMonthReason sample_pandas
        [\<lparr>ms_CustomerNbr = Some 1, ms_Date = Raw ''2024-01-15'', ms_AantalBesteld = 9223372036854775807,
          ms_GEMISTEVERKOOPFLG = Some 1, ms_Reason = Some ''stock 0''\<rparr>,
         \<lparr>ms_CustomerNbr = Some 1, ms_Date = Raw ''2024-01-20'', ms_AantalBesteld = 1,
          ms_GEMISTEVERKOOPFLG = Some 1, ms_Reason = Some ''stock 0''\<rparr>]
       = [(((2024, 1), ''stock 0''), - 9223372036854775808)]
   \<and> sum_list (map (\<lambda>r. cell_value sample_pandas (ms_AantalBesteld r))
        [\<lparr>ms_CustomerNbr = Some 1, ms_Date = Raw ''2024-01-15'', ms_AantalBesteld = 9223372036854775807,
          ms_GEMISTEVERKOOPFLG = Some 1, ms_Reason = Some ''stock 0''\<rparr>,
         \<lparr>ms_CustomerNbr = Some 1, ms_Date = Raw ''2024-01-20'', ms_AantalBesteld = 1,
          ms_GEMISTEVERKOOPFLG = Some 1, ms_Reason = Some ''stock 0''\<rparr>]) = 9223372036854775808"
  by code_simp

text \<open>
  C1, amended. The table of the line chart is the month-and-reason table of the loaded
  missed sales. The total of each of its groups is the sum pandas computes of the
  converted quantities that are not null of the loaded rows with flag 1, a date that
  line 67 parses into the month of the group, and a Reason that the dictionary
  translates into the reason of the group. Whenever the totals of the groups of a month
  are exact (each is the number that is the sum of the values of its cells: no
  wrap-around, no rounding), the sum of the totals over all reasons of that month is the
  sum of the converted quantity over the loaded rows with flag 1, a date that parses
  into that month, a Reason that the dictionary translates (so not null, and a key of
  the dictionary), and a quantity that converts to a number.
\<close>

theorem month_total:
  "line_missed_by_time_reason (snd (dashboard L F)) = MissedByMonthReason L (missed_sales F)
   \<and> (\<forall>g\<in>set (MissedByMonthReason L ms). snd g = col_sum L (month_reason_cells L ms (fst g)))
   \<and> ((\<forall>g\<in>set (MissedByMonthReason L ms). fst (fst g) = m \<longrightarrow>
          number L (snd g) = Some (sum_list (map (cell_value L) (month_reason_cells L ms (fst g)))))
        \<longrightarrow> sum_list (map (\<lambda>g. cell_value L (snd g))
                (filter (\<lambda>g. fst (fst g) = m) (MissedByMonthReason L ms)))
           = sum_list (map (\<lambda>r. cell_value L (numeric_quantity L ms r))
               (filter (\<lambda>r. ms_GEMISTEVERKOOPFLG r = Some 1
                            \<and> to_period_M (parsed_date L ms r) = Some m
                            \<and> series_map reason_translation (ms_Reason r) \<noteq> None
                            \<and> \<not> isna L (numeric_quantity L ms r)) ms)))"
proof (intro conjI impI)
  show "line_missed_by_time_reason (snd (dashboard L F)) = MissedByMonthReason L (missed_sales F)"
    by (simp add: dashboard_charts)
next
  show "\<forall>g\<in>set (MissedByMonthReason L ms). snd g = col_sum L (month_reason_cells L ms (fst g))"
    unfolding month_reason_table by auto
next
  let ?key = "\<lambda>r. key2 (to_period_M (parsed_date L ms r)) (series_map reason_translation (ms_Reason r))"
  let ?key' = "\<lambda>r. if ms_GEMISTEVERKOOPFLG r = Some 1 \<and> \<not> isna L (numeric_quantity L ms r)
                    then ?key r else None"
  let ?ks = "sort (remdups (List.map_filter ?key (filter (\<lambda>r. ms_GEMISTEVERKOOPFLG r = Some 1) ms)))"
  let ?f = "\<lambda>r. cell_value L (numeric_quantity L ms r)"
  let ?P = "\<lambda>k::period \<times> string. fst k = m"
  assume exact: "\<forall>g\<in>set (MissedByMonthReason L ms). fst (fst g) = m \<longrightarrow>
          number L (snd g) = Some (sum_list (map (cell_value L) (month_reason_cells L ms (fst g))))"
  have d: "distinct ?ks" by simp
  have cover: "\<forall>r\<in>set ms. \<forall>k. ?key' r = Some k \<and> ?P k \<longrightarrow> k \<in> set ?ks"
    by (auto simp: set_map_filter_key split: if_splits)
  have group: "cell_value L (col_sum L (month_reason_cells L ms k))
      = sum_list (map ?f (filter (\<lambda>r. ?key' r = Some k) ms))" if "k \<in> set (filter ?P ?ks)" for k
  proof -
    from that have "(k, col_sum L (month_reason_cells L ms k)) \<in> set (MissedByMonthReason L ms)"
      and "fst k = m"
      unfolding month_reason_table by auto
    with exact have "number L (col_sum L (month_reason_cells L ms k))
        = Some (sum_list (map (cell_value L) (month_reason_cells L ms k)))"
      by fastforce
    then show ?thesis by (simp add: cell_value_def month_cells_sum)
  qed
  have "sum_list (map (\<lambda>g. cell_value L (snd g)) (filter (\<lambda>g. fst (fst g) = m) (MissedByMonthReason L ms)))
      = sum_list (map (\<lambda>k. cell_value L (col_sum L (month_reason_cells L ms k))) (filter ?P ?ks))"
    unfolding month_reason_table by (simp add: filter_map o_def)
  also have "\<dots> = sum_list (map (\<lambda>k. sum_list (map ?f (filter (\<lambda>r. ?key' r = Some k) ms))) (filter ?P ?ks))"
    by (intro arg_cong [where f = sum_list] map_cong refl group)
  also have "\<dots> = sum_list (map ?f (filter (\<lambda>r. case ?key' r of Some k \<Rightarrow> ?P k | None \<Rightarrow> False) ms))"
    by (rule regroup_filter [OF d cover])
  also have "filter (\<lambda>r. case ?key' r of Some k \<Rightarrow> ?P k | None \<Rightarrow> False) ms
      = filter (\<lambda>r. ms_GEMISTEVERKOOPFLG r = Some 1
                            \<and> to_period_M (parsed_date L ms r) = Some m
                            \<and> series_map reason_translation (ms_Reason r) \<noteq> None
                            \<and> \<not> isna L (numeric_quantity L ms r)) ms"
    by (intro filter_cong refl) (auto simp: key2_def split: option.splits)
  finally show "sum_list (map (\<lambda>g. cell_value L (snd g))
                (filter (\<lambda>g. fst (fst g) = m) (MissedByMonthReason L ms)))
           = sum_list (map (\<lambda>r. cell_value L (numeric_quantity L ms r))
               (filter (\<lambda>r. ms_GEMISTEVERKOOPFLG r = Some 1
                            \<and> to_period_M (parsed_date L ms r) = Some m
                            \<and> series_map reason_translation (ms_Reason r) \<noteq> None
                            \<and> \<not> isna L (numeric_quantity L ms r)) ms))" .
qed

theorem month_total_witness:
  "sum_list (map (\<lambda>g. cell_value sample_pandas (snd g)) (filter (\<lambda>g. fst (fst g) = (2024, 1))
      (MissedByMonthReason sample_pandas sample_missed))) = 8"
proof -
  have exact: "\<forall>g\<in>set (MissedByMonthReason sample_pandas sample_missed). fst (fst g) = (2024, 1) \<longrightarrow>
          number sample_pandas (snd g)
            = Some (sum_list (map (cell_value sample_pandas)
                (month_reason_cells sample_pandas sample_missed (fst g))))"
    by code_simp
  have rows: "sum_list (map (\<lambda>r. cell_value sample_pandas (numeric_quantity sample_pandas sample_missed r))
               (filter (\<lambda>r. ms_GEMISTEVERKOOPFLG r = Some 1
                            \<and> to_period_M (parsed_date sample_pandas sample_missed r) = Some (2024, 1)
                            \<and> series_map reason_translation (ms_Reason r) \<noteq> None
                            \<and> \<not> isna sample_pandas (numeric_quantity sample_pandas sample_missed r))
                  sample_missed)) = 8"
    by code_simp
  note total = month_total [where m = "(2024, 1)" and L = sample_pandas and ms = sample_missed
      and F = sample_files, THEN conjunct2, THEN conjunct2, THEN mp, OF exact]
  show ?thesis by (simp only: total rows)
qed

subsection \<open>Reordering the rows\<close>

lemma int64_sum_mset: "mset xs = mset ys \<Longrightarrow> int64_sum xs = int64_sum ys"
proof -
  assume "mset xs = mset ys"
  then have "sum_mset (mset xs) = sum_mset (mset ys)" by simp
  then have "sum_list xs = sum_list ys" by (simp only: sum_mset_sum_list)
  then show ?thesis by (simp add: int64_sum_def)
qed

text \<open>
  C9, as stated, fails: line 67 parses every date of the missed-sales table with the
  format of the first one, so the order of the rows decides which dates parse. With a
  first row dated \<^verbatim>\<open>2024-01-15\<close> (quantity 5) and a second dated \<^verbatim>\<open>20/01/2024\<close> (quantity
  3), the total of January 2024 is 5; with the two rows swapped it is 3.
\<close>

theorem permutation_counterexample:
  "line_missed_by_time_reason (snd (dashboard sample_pandas
      \<lparr>missed_sales =
         [\<lparr>ms_CustomerNbr = Some 1, ms_Date = Raw ''2024-01-15'', ms_AantalBesteld = 5,
           ms_GEMISTEVERKOOPFLG = Some 1, ms_Reason = Some ''stock 0''\<rparr>,
          \<lparr>ms_CustomerNbr = Some 1, ms_Date = Raw ''20/01/2024'', ms_AantalBesteld = 3,
           ms_GEMISTEVERKOOPFLG = Some 1, ms_Reason = Some ''stock 0''\<rparr>],
       actual_sales = sample_actual, customer_data = sample_customers,
       postal_code_data = sample_postal\<rparr>))
     = [(((2024, 1), ''stock 0''), 5)]
   \<and> line_missed_by_time_reason (snd (dashboard sample_pandas
      \<lparr>missed_sales =
         rev [\<lparr>ms_CustomerNbr = Some 1, ms_Date = Raw ''2024-01-15'', ms_AantalBesteld = 5,
           ms_GEMISTEVERKOOPFLG = Some 1, ms_Reason = Some ''stock 0''\<rparr>,
          \<lparr>ms_CustomerNbr = Some 1, ms_Date = Raw ''20/01/2024'', ms_AantalBesteld = 3,
           ms_GEMISTEVERKOOPFLG = Some 1, ms_Reason = Some ''stock 0''\<rparr>],
       actual_sales = sample_actual, customer_data = sample_customers,
       postal_code_data = sample_postal\<rparr>))
     = [(((2024, 1), ''stock 0''), 3)]"
  by code_simp

text \<open>
  C9, amended. When each of the four loaded tables is replaced by a permutation of its
  rows, every table given to the charts stays the same (the same group keys with the same
  totals and, the groups being sorted by key, in the same order), provided that line 67
  guesses the same date format for the missed-sales table before and after, and that
  the sum pandas computes for a group does not depend on the order of its cells.
\<close>

theorem permutation_invariance:
  assumes "mset (missed_sales F) = mset (missed_sales F')"
    and "mset (actual_sales F) = mset (actual_sales F')"
    and "mset (customer_data F) = mset (customer_data F')"
    and "mset (postal_code_data F) = mset (postal_code_data F')"
    and "missed_date_format L (missed_sales F) = missed_date_format L (missed_sales F')"
    and "\<forall>xs ys. mset xs = mset ys \<longrightarrow> col_sum L xs = col_sum L ys"
  shows "snd (dashboard L F) = snd (dashboard L F')"
proof -
  have clean: "mset (missed_sales_clean L (missed_sales_filtered (missed_sales_to_datetime L (missed_sales F))))
       = mset (missed_sales_clean L (missed_sales_filtered (missed_sales_to_datetime L (missed_sales F'))))"
    by (rule clean_mset_cong [OF assms(1) assms(5)])
  have pc: "mset (postal_code_data_astype L (postal_code_data F)) = mset (postal_code_data_astype L (postal_code_data F'))"
    unfolding postal_code_data_astype_def by (rule mset_map_cong [OF assms(4)])
  have mm: "mset (missed_sales_merged (missed_sales_clean L (missed_sales_filtered (missed_sales_to_datetime L (missed_sales F)))) (customer_data F))
      = mset (missed_sales_merged (missed_sales_clean L (missed_sales_filtered (missed_sales_to_datetime L (missed_sales F')))) (customer_data F'))"
    unfolding missed_sales_merged_def by (rule merge_inner_mset_cong [OF clean assms(3)])
  have am: "mset (actual_sales_merged (actual_sales F) (customer_data F))
      = mset (actual_sales_merged (actual_sales F') (customer_data F'))"
    unfolding actual_sales_merged_def by (rule merge_inner_mset_cong [OF assms(2) assms(3)])
  have mq: "mset (sales_located L (missed_sales_query (missed_sales F) (customer_data F)) (postal_code_data_astype L (postal_code_data F)))
      = mset (sales_located L (missed_sales_query (missed_sales F') (customer_data F')) (postal_code_data_astype L (postal_code_data F')))"
    by (intro sales_located_mset_cong missed_sales_query_mset_cong assms pc)
  have aq: "mset (sales_located L (actual_sales_query (actual_sales F) (customer_data F)) (postal_code_data_astype L (postal_code_data F)))
      = mset (sales_located L (actual_sales_query (actual_sales F') (customer_data F')) (postal_code_data_astype L (postal_code_data F')))"
    unfolding actual_sales_query_def
    by (intro sales_located_mset_cong sql_inner_join_mset_cong assms pc)
  have line: "MissedByMonthReason L (missed_sales F) = MissedByMonthReason L (missed_sales F')"
    unfolding MissedByMonthReason_def missed_sales_by_time_reason_def
    by (rule groupby_sum_mset [OF clean assms(6)])
  have bar_m: "missed_sales_by_customer_type L (missed_sales_merged (missed_sales_clean L (missed_sales_filtered (missed_sales_to_datetime L (missed_sales F)))) (customer_data F))
      = missed_sales_by_customer_type L (missed_sales_merged (missed_sales_clean L (missed_sales_filtered (missed_sales_to_datetime L (missed_sales F')))) (customer_data F'))"
    unfolding missed_sales_by_customer_type_def by (rule groupby_sum_mset [OF mm assms(6)])
  have bar_a: "actual_sales_by_customer_type L (actual_sales_merged (actual_sales F) (customer_data F))
      = actual_sales_by_customer_type L (actual_sales_merged (actual_sales F') (customer_data F'))"
    unfolding actual_sales_by_customer_type_def by (rule groupby_sum_mset [OF am assms(6)])
  have city_m: "missed_sales_by_city L (missed_sales_merged (missed_sales_clean L (missed_sales_filtered (missed_sales_to_datetime L (missed_sales F)))) (customer_data F))
      = missed_sales_by_city L (missed_sales_merged (missed_sales_clean L (missed_sales_filtered (missed_sales_to_datetime L (missed_sales F')))) (customer_data F'))"
    unfolding missed_sales_by_city_def by (rule groupby_sum_mset [OF mm assms(6)])
  have city_a: "actual_sales_by_city L (actual_sales_merged (actual_sales F) (customer_data F))
      = actual_sales_by_city L (actual_sales_merged (actual_sales F') (customer_data F'))"
    unfolding actual_sales_by_city_def by (rule groupby_sum_mset [OF am assms(6)])
  have map_m: "sales_by_city_geo L ms_AantalBesteld (sales_located L (missed_sales_query (missed_sales F) (customer_data F)) (postal_code_data_astype L (postal_code_data F)))
      = sales_by_city_geo L ms_AantalBesteld (sales_located L (missed_sales_query (missed_sales F') (customer_data F')) (postal_code_data_astype L (postal_code_data F')))"
    unfolding sales_by_city_geo_def
    by (rule arg_cong [where f = "with_marker_size L"]) (rule groupby_sum_mset [OF mq assms(6)])
  have map_a: "sales_by_city_geo L as_SaleQuantity (sales_located L (actual_sales_query (actual_sales F) (customer_data F)) (postal_code_data_astype L (postal_code_data F)))
      = sales_by_city_geo L as_SaleQuantity (sales_located L (actual_sales_query (actual_sales F') (customer_data F')) (postal_code_data_astype L (postal_code_data F')))"
    unfolding sales_by_city_geo_def
    by (rule arg_cong [where f = "with_marker_size L"]) (rule groupby_sum_mset [OF aq assms(6)])
  show ?thesis
    unfolding dashboard_charts line bar_m bar_a city_m city_a map_m map_a ..
qed

theorem permutation_invariance_witness:
  "snd (dashboard sample_pandas sample_files)
       = snd (dashboard sample_pandas
           \<lparr>missed_sales = hd sample_missed # rev (tl sample_missed), actual_sales = rev sample_actual,
            customer_data = rev sample_customers, postal_code_data = rev sample_postal\<rparr>)"
proof -
  let ?F' = "\<lparr>missed_sales = hd sample_missed # rev (tl sample_missed), actual_sales = rev sample_actual,
            customer_data = rev sample_customers, postal_code_data = rev sample_postal\<rparr>"
  have "sample_missed \<noteq> []" by (simp add: sample_missed_def)
  then have "hd sample_missed # tl sample_missed = sample_missed" by simp
  moreover have "mset (hd sample_missed # rev (tl sample_missed)) = mset (hd sample_missed # tl sample_missed)"
    by simp
  ultimately have a: "mset (missed_sales sample_files) = mset (missed_sales ?F')"
    by (simp only: sample_files_def frames.simps)
  have b: "mset (actual_sales sample_files) = mset (actual_sales ?F')"
    and c: "mset (customer_data sample_files) = mset (customer_data ?F')"
    and d: "mset (postal_code_data sample_files) = mset (postal_code_data ?F')"
    by (simp_all add: sample_files_def)
  have f1: "missed_date_format sample_pandas sample_missed = Some ''%Y-%m-%d''"
    by code_simp
  have f2: "missed_date_format sample_pandas (hd sample_missed # rev (tl sample_missed)) = Some ''%Y-%m-%d''"
    by code_simp
  have e: "missed_date_format sample_pandas (missed_sales sample_files)
      = missed_date_format sample_pandas (missed_sales ?F')"
    by (simp only: sample_files_def frames.simps f1 f2)
  have cs: "col_sum sample_pandas = int64_sum" by (simp add: sample_pandas_def)
  have s: "\<forall>xs ys. mset xs = mset ys \<longrightarrow> col_sum sample_pandas xs = col_sum sample_pandas ys"
    unfolding cs by (intro allI impI) (rule int64_sum_mset)
  show ?thesis by (rule permutation_invariance [OF a b c d e s])
qed

subsection \<open>The charts of the small data set\<close>

lemma sample_charts:
  "snd (dashboard sample_pandas sample_files) =
     \<lparr>line_missed_by_time_reason = [(((2024, 1), ''stock 0''), 8)],
      bar_missed_by_customer_type = [(''Member'', 8)],
      bar_actual_by_customer_type = [(''Groothandel'', 10), (''Member'', 40000)],
      bar_missed_by_city = [(''Gent'', 8)],
      bar_actual_by_city = [(''Brugge'', 10), (''Gent'', 40000)],
      map_missed_by_city = Inr [((''Gent'', 5105 / 100, 372 / 100), 39, 1)],
      map_actual_by_city = Inr [((''Gent'', 5105 / 100, 372 / 100), 40000, 4)]\<rparr>"
  by code_simp

subsection \<open>Sales of an unknown customer\<close>

lemma merge_inner_append:
  "merge_inner lk rk (xs @ ys) right = merge_inner lk rk xs right @ merge_inner lk rk ys right"
  by (simp add: merge_inner_def)

lemma merge_inner_unmatched:
  "\<forall>c\<in>set right. rk c \<noteq> lk x \<Longrightarrow> merge_inner lk rk (x # xs) right = merge_inner lk rk xs right"
  by (simp add: merge_inner_def filter_empty_conv)

lemma sql_inner_join_append:
  "sql_inner_join lk rk (xs @ ys) right = sql_inner_join lk rk xs right @ sql_inner_join lk rk ys right"
  by (simp add: sql_inner_join_def)

lemma sql_inner_join_unmatched:
  "\<forall>c\<in>set right. rk c \<noteq> lk x \<Longrightarrow> sql_inner_join lk rk (x # xs) right = sql_inner_join lk rk xs right"
  by (auto simp: sql_inner_join_def filter_empty_conv sql_eq_def)

lemma numeric_quantity_dtype:
  "quantity_dtype L ms = quantity_dtype L ms' \<Longrightarrow> numeric_quantity L ms = numeric_quantity L ms'"
  by (rule ext) (simp add: numeric_quantity_def)

lemma missed_merged_drop:
  assumes "\<forall>c\<in>set cs. c_CustomerNbr c \<noteq> ms_CustomerNbr r"
    and "missed_date_format L (xs @ r # ys) = missed_date_format L (xs @ ys)"
    and "quantity_dtype L (xs @ r # ys) = quantity_dtype L (xs @ ys)"
  shows "missed_sales_merged (missed_sales_clean L (missed_sales_filtered (missed_sales_to_datetime L (xs @ r # ys)))) cs
       = missed_sales_merged (missed_sales_clean L (missed_sales_filtered (missed_sales_to_datetime L (xs @ ys)))) cs"
  unfolding clean_of_loaded missed_sales_merged_def
    parsed_date_format [OF assms(2)] numeric_quantity_dtype [OF assms(3)]
  using assms(1) by (simp add: merge_inner_append merge_inner_unmatched)

lemma missed_query_drop:
  assumes "\<forall>c\<in>set cs. c_CustomerNbr c \<noteq> ms_CustomerNbr r"
  shows "missed_sales_query (xs @ r # ys) cs = missed_sales_query (xs @ ys) cs"
  unfolding missed_sales_query_def
  using assms by (simp add: sql_inner_join_append sql_inner_join_unmatched [where xs = "[]", simplified] sql_inner_join_unmatched)

lemma actual_merged_drop:
  assumes "\<forall>c\<in>set cs. c_CustomerNbr c \<noteq> as_CustomerNbr s"
  shows "actual_sales_merged (xs @ s # ys) cs = actual_sales_merged (xs @ ys) cs"
  unfolding actual_sales_merged_def
  using assms by (simp add: merge_inner_append merge_inner_unmatched)

lemma actual_query_drop:
  assumes "\<forall>c\<in>set cs. c_CustomerNbr c \<noteq> as_CustomerNbr s"
  shows "actual_sales_query (xs @ s # ys) cs = actual_sales_query (xs @ ys) cs"
  unfolding actual_sales_query_def
  using assms by (simp add: sql_inner_join_append sql_inner_join_unmatched)

text \<open>
  C2, as stated, fails. The month-and-reason table is built from the missed sales alone,
  before any join, so a flagged missed sale of a customer number that the customer table
  does not hold is counted there. And such a row can change the tables by customer type
  and by city through line 67: when it is the first row of the missed-sales table, its
  date decides the format in which the dates of all rows are parsed. With the row of the
  unknown customer 2 dated \<^verbatim>\<open>20/01/2024\<close> before a row of customer 1 dated
  \<^verbatim>\<open>2024-01-15\<close>, the table by customer type is empty; without it, it holds the 5 of
  customer 1.
\<close>

theorem unmatched_customer_counterexample:
  "map c_CustomerNbr sample_customers = [Some 1, Some 3]
   \<and> line_missed_by_time_reason (snd (dashboard sample_pandas
       \<lparr>missed_sales = [\<lparr>ms_CustomerNbr = Some 2, ms_Date = Raw ''2024-01-15'', ms_AantalBesteld = 2,
                          ms_GEMISTEVERKOOPFLG = Some 1, ms_Reason = Some ''stock 0''\<rparr>],
        actual_sales = [], customer_data = sample_customers, postal_code_data = sample_postal\<rparr>))
     = [(((2024, 1), ''stock 0''), 2)]
   \<and> line_missed_by_time_reason (snd (dashboard sample_pandas
       \<lparr>missed_sales = [], actual_sales = [], customer_data = sample_customers,
        postal_code_data = sample_postal\<rparr>)) = []
   \<and> bar_missed_by_customer_type (snd (dashboard sample_pandas
       \<lparr>missed_sales = [\<lparr>ms_CustomerNbr = Some 2, ms_Date = Raw ''20/01/2024'', ms_AantalBesteld = 2,
                          ms_GEMISTEVERKOOPFLG = Some 1, ms_Reason = Some ''stock 0''\<rparr>,
                        \<lparr>ms_CustomerNbr = Some 1, ms_Date = Raw ''2024-01-15'', ms_AantalBesteld = 5,
                          ms_GEMISTEVERKOOPFLG = Some 1, ms_Reason = Some ''stock 0''\<rparr>],
        actual_sales = [], customer_data = sample_customers, postal_code_data = sample_postal\<rparr>))
     = []
   \<and> bar_missed_by_customer_type (snd (dashboard sample_pandas
       \<lparr>missed_sales = [\<lparr>ms_CustomerNbr = Some 1, ms_Date = Raw ''2024-01-15'', ms_AantalBesteld = 5,
                          ms_GEMISTEVERKOOPFLG = Some 1, ms_Reason = Some ''stock 0''\<rparr>],
        actual_sales = [], customer_data = sample_customers, postal_code_data = sample_postal\<rparr>))
     = [(''Member'', 5)]"
  by code_simp

text \<open>
  C2, amended. A missed sale whose customer number no customer row has changes neither
  map table and no table of the actual sales: they are the tables computed without that
  row. It changes neither the missed-sales table by customer type nor the one by city,
  provided that without the row line 67 guesses the same date format and line 111
  settles the same dtype for the quantity column. An actual sale whose customer number
  no customer row has changes no table at all. (The month-and-reason table is left out:
  it has no join.)
\<close>

theorem unmatched_customer:
  "((\<forall>c\<in>set cs. c_CustomerNbr c \<noteq> ms_CustomerNbr r) \<longrightarrow>
      (let C = snd (dashboard L \<lparr>missed_sales = xs @ r # ys, actual_sales = sales,
                                 customer_data = cs, postal_code_data = ps\<rparr>);
           C' = snd (dashboard L \<lparr>missed_sales = xs @ ys, actual_sales = sales,
                                  customer_data = cs, postal_code_data = ps\<rparr>)
       in map_missed_by_city C = map_missed_by_city C'
          \<and> bar_actual_by_customer_type C = bar_actual_by_customer_type C'
          \<and> bar_actual_by_city C = bar_actual_by_city C'
          \<and> map_actual_by_city C = map_actual_by_city C'
          \<and> (missed_date_format L (xs @ r # ys) = missed_date_format L (xs @ ys)
               \<and> quantity_dtype L (xs @ r # ys) = quantity_dtype L (xs @ ys) \<longrightarrow>
             bar_missed_by_customer_type C = bar_missed_by_customer_type C'
             \<and> bar_missed_by_city C = bar_missed_by_city C')))
   \<and> ((\<forall>c\<in>set cs. c_CustomerNbr c \<noteq> as_CustomerNbr s) \<longrightarrow>
      snd (dashboard L \<lparr>missed_sales = missed, actual_sales = xs' @ s # ys',
                         customer_data = cs, postal_code_data = ps\<rparr>)
        = snd (dashboard L \<lparr>missed_sales = missed, actual_sales = xs' @ ys',
                              customer_data = cs, postal_code_data = ps\<rparr>))"
proof (intro conjI impI)
  assume a: "\<forall>c\<in>set cs. c_CustomerNbr c \<noteq> ms_CustomerNbr r"
  have maps: "map_missed_by_city (snd (dashboard L \<lparr>missed_sales = xs @ r # ys, actual_sales = sales,
                                 customer_data = cs, postal_code_data = ps\<rparr>))
      = map_missed_by_city (snd (dashboard L \<lparr>missed_sales = xs @ ys, actual_sales = sales,
                                  customer_data = cs, postal_code_data = ps\<rparr>))"
    and actual: "bar_actual_by_customer_type (snd (dashboard L \<lparr>missed_sales = xs @ r # ys, actual_sales = sales,
                                 customer_data = cs, postal_code_data = ps\<rparr>))
      = bar_actual_by_customer_type (snd (dashboard L \<lparr>missed_sales = xs @ ys, actual_sales = sales,
                                  customer_data = cs, postal_code_data = ps\<rparr>))"
      "bar_actual_by_city (snd (dashboard L \<lparr>missed_sales = xs @ r # ys, actual_sales = sales,
                                 customer_data = cs, postal_code_data = ps\<rparr>))
      = bar_actual_by_city (snd (dashboard L \<lparr>missed_sales = xs @ ys, actual_sales = sales,
                                  customer_data = cs, postal_code_data = ps\<rparr>))"
      "map_actual_by_city (snd (dashboard L \<lparr>missed_sales = xs @ r # ys, actual_sales = sales,
                                 customer_data = cs, postal_code_data = ps\<rparr>))
      = map_actual_by_city (snd (dashboard L \<lparr>missed_sales = xs @ ys, actual_sales = sales,
                                  customer_data = cs, postal_code_data = ps\<rparr>))"
    by (simp_all add: dashboard_charts missed_query_drop [OF a] cong: sum.case_cong)
  have missed: "bar_missed_by_customer_type (snd (dashboard L \<lparr>missed_sales = xs @ r # ys, actual_sales = sales,
                                 customer_data = cs, postal_code_data = ps\<rparr>))
      = bar_missed_by_customer_type (snd (dashboard L \<lparr>missed_sales = xs @ ys, actual_sales = sales,
                                  customer_data = cs, postal_code_data = ps\<rparr>))
    \<and> bar_missed_by_city (snd (dashboard L \<lparr>missed_sales = xs @ r # ys, actual_sales = sales,
                                 customer_data = cs, postal_code_data = ps\<rparr>))
      = bar_missed_by_city (snd (dashboard L \<lparr>missed_sales = xs @ ys, actual_sales = sales,
                                  customer_data = cs, postal_code_data = ps\<rparr>))"
    if "missed_date_format L (xs @ r # ys) = missed_date_format L (xs @ ys)"
      and "quantity_dtype L (xs @ r # ys) = quantity_dtype L (xs @ ys)"
    by (simp add: dashboard_charts missed_merged_drop [OF a that])
  show "let C = snd (dashboard L \<lparr>missed_sales = xs @ r # ys, actual_sales = sales,
                                 customer_data = cs, postal_code_data = ps\<rparr>);
           C' = snd (dashboard L \<lparr>missed_sales = xs @ ys, actual_sales = sales,
                                  customer_data = cs, postal_code_data = ps\<rparr>)
       in map_missed_by_city C = map_missed_by_city C'
          \<and> bar_actual_by_customer_type C = bar_actual_by_customer_type C'
          \<and> bar_actual_by_city C = bar_actual_by_city C'
          \<and> map_actual_by_city C = map_actual_by_city C'
          \<and> (missed_date_format L (xs @ r # ys) = missed_date_format L (xs @ ys)
               \<and> quantity_dtype L (xs @ r # ys) = quantity_dtype L (xs @ ys) \<longrightarrow>
             bar_missed_by_customer_type C = bar_missed_by_customer_type C'
             \<and> bar_missed_by_city C = bar_missed_by_city C')"
    unfolding Let_def using maps actual missed by blast
next
  assume a: "\<forall>c\<in>set cs. c_CustomerNbr c \<noteq> as_CustomerNbr s"
  show "snd (dashboard L \<lparr>missed_sales = missed, actual_sales = xs' @ s # ys',
                         customer_data = cs, postal_code_data = ps\<rparr>)
        = snd (dashboard L \<lparr>missed_sales = missed, actual_sales = xs' @ ys',
                              customer_data = cs, postal_code_data = ps\<rparr>)"
    by (simp add: dashboard_charts actual_merged_drop [OF a] actual_query_drop [OF a] cong: sum.case_cong)
qed

theorem unmatched_customer_witness:
  "Some 2 \<notin> set (map c_CustomerNbr sample_customers)
   \<and> (let C = snd (dashboard sample_pandas
         \<lparr>missed_sales =
            \<lparr>ms_CustomerNbr = Some 2, ms_Date = Raw ''2024-01-15'', ms_AantalBesteld = 2,
                  ms_GEMISTEVERKOOPFLG = Some 1, ms_Reason = Some ''stock 0''\<rparr> # sample_missed,
          actual_sales = sample_actual, customer_data = sample_customers,
          postal_code_data = sample_postal\<rparr>)
       in bar_missed_by_customer_type C = [(''Member'', 8)]
          \<and> bar_missed_by_city C = [(''Gent'', 8)]
          \<and> map_missed_by_city C = Inr [((''Gent'', 5105 / 100, 372 / 100), 39, 1)])
   \<and> snd (dashboard sample_pandas
         \<lparr>missed_sales = sample_missed,
          actual_sales =
            \<lparr>as_CustomerNbr = Some 2, as_Date = Raw ''2024-01-15'', as_SaleQuantity = 6\<rparr>
               # sample_actual,
          customer_data = sample_customers, postal_code_data = sample_postal\<rparr>)
       = snd (dashboard sample_pandas sample_files)"
proof -
  let ?r = "\<lparr>ms_CustomerNbr = Some 2, ms_Date = Raw ''2024-01-15'', ms_AantalBesteld = (2::int),
                  ms_GEMISTEVERKOOPFLG = Some 1, ms_Reason = Some ''stock 0''\<rparr>"
  let ?s = "\<lparr>as_CustomerNbr = Some 2, as_Date = Raw ''2024-01-15'', as_SaleQuantity = (6::int)\<rparr>"
  have n: "Some 2 \<notin> set (map c_CustomerNbr sample_customers)"
    by (simp add: sample_customers_def)
  have hr: "\<forall>c\<in>set sample_customers. c_CustomerNbr c \<noteq> ms_CustomerNbr ?r"
    and hs: "\<forall>c\<in>set sample_customers. c_CustomerNbr c \<noteq> as_CustomerNbr ?s"
    by (simp_all add: sample_customers_def)
  have fmt: "missed_date_format sample_pandas ([] @ ?r # sample_missed)
      = missed_date_format sample_pandas ([] @ sample_missed)"
    by code_simp
  have dtype: "quantity_dtype sample_pandas ([] @ ?r # sample_missed)
      = quantity_dtype sample_pandas ([] @ sample_missed)"
    by simp
  have same: "\<lparr>missed_sales = sample_missed, actual_sales = sample_actual,
      customer_data = sample_customers, postal_code_data = sample_postal\<rparr> = sample_files"
    by (simp add: sample_files_def)
  note U = unmatched_customer [where cs = sample_customers and r = ?r and s = ?s and L = sample_pandas
      and xs = "[]" and ys = sample_missed and sales = sample_actual and ps = sample_postal
      and missed = sample_missed and xs' = "[]" and ys' = sample_actual]
  from U hr fmt dtype have
    "bar_missed_by_customer_type (snd (dashboard sample_pandas \<lparr>missed_sales = [] @ ?r # sample_missed,
        actual_sales = sample_actual, customer_data = sample_customers, postal_code_data = sample_postal\<rparr>))
      = bar_missed_by_customer_type (snd (dashboard sample_pandas \<lparr>missed_sales = [] @ sample_missed,
        actual_sales = sample_actual, customer_data = sample_customers, postal_code_data = sample_postal\<rparr>))"
    "bar_missed_by_city (snd (dashboard sample_pandas \<lparr>missed_sales = [] @ ?r # sample_missed,
        actual_sales = sample_actual, customer_data = sample_customers, postal_code_data = sample_postal\<rparr>))
      = bar_missed_by_city (snd (dashboard sample_pandas \<lparr>missed_sales = [] @ sample_missed,
        actual_sales = sample_actual, customer_data = sample_customers, postal_code_data = sample_postal\<rparr>))"
    "map_missed_by_city (snd (dashboard sample_pandas \<lparr>missed_sales = [] @ ?r # sample_missed,
        actual_sales = sample_actual, customer_data = sample_customers, postal_code_data = sample_postal\<rparr>))
      = map_missed_by_city (snd (dashboard sample_pandas \<lparr>missed_sales = [] @ sample_missed,
        actual_sales = sample_actual, customer_data = sample_customers, postal_code_data = sample_postal\<rparr>))"
    unfolding Let_def by blast+
  then have missed: "bar_missed_by_customer_type (snd (dashboard sample_pandas \<lparr>missed_sales = ?r # sample_missed,
        actual_sales = sample_actual, customer_data = sample_customers, postal_code_data = sample_postal\<rparr>))
      = [(''Member'', 8)]"
    "bar_missed_by_city (snd (dashboard sample_pandas \<lparr>missed_sales = ?r # sample_missed,
        actual_sales = sample_actual, customer_data = sample_customers, postal_code_data = sample_postal\<rparr>))
      = [(''Gent'', 8)]"
    "map_missed_by_city (snd (dashboard sample_pandas \<lparr>missed_sales = ?r # sample_missed,
        actual_sales = sample_actual, customer_data = sample_customers, postal_code_data = sample_postal\<rparr>))
      = Inr [((''Gent'', 5105 / 100, 372 / 100), 39, 1)]"
    by (simp_all add: same sample_charts)
  from U hs have "snd (dashboard sample_pandas \<lparr>missed_sales = sample_missed, actual_sales = [] @ ?s # sample_actual,
        customer_data = sample_customers, postal_code_data = sample_postal\<rparr>)
      = snd (dashboard sample_pandas \<lparr>missed_sales = sample_missed, actual_sales = [] @ sample_actual,
        customer_data = sample_customers, postal_code_data = sample_postal\<rparr>)"
    by blast
  then have actual: "snd (dashboard sample_pandas \<lparr>missed_sales = sample_missed, actual_sales = ?s # sample_actual,
        customer_data = sample_customers, postal_code_data = sample_postal\<rparr>)
      = snd (dashboard sample_pandas sample_files)"
    by (simp add: same)
  from n missed actual show ?thesis by (simp only: Let_def simp_thms)
qed

subsection \<open>Postal codes without coordinates\<close>

lemma merge_left_append:
  "merge_left lk rk (xs @ ys) right = merge_left lk rk xs right @ merge_left lk rk ys right"
  by (simp add: merge_left_def)

lemma merge_left_unmatched:
  "lk x \<notin> rk ` set right \<Longrightarrow> merge_left lk rk [x] right = [(x, None)]"
proof -
  assume "lk x \<notin> rk ` set right"
  then have "filter (\<lambda>r. rk r = lk x) right = []" by (force simp: filter_empty_conv)
  then show ?thesis by (simp add: merge_left_def)
qed

lemma sales_located_append:
  "sales_located L (xs @ ys) pcs = sales_located L xs pcs @ sales_located L ys pcs"
  by (simp add: sales_located_def sales_clean_geo_def fill_coordinates_def merge_postal_def
      merged_astype_def merge_left_append)

lemma unmatched_sentinel:
  assumes "astype_str L (c_CustomerPostalCode (snd j)) \<notin> pc_CustomerPostalCode ` set pcs"
  shows "fill_coordinates (merge_postal (merged_astype L [j]) pcs)
       = [((fst j, customer_astype_str L (snd j)), 0, 0)]"
proof -
  let ?j = "(fst j, customer_astype_str L (snd j))"
  have "c_CustomerPostalCode (snd ?j) \<notin> pc_CustomerPostalCode ` set pcs"
    using assms by (simp add: customer_astype_str_def)
  then have "merge_left (\<lambda>row. c_CustomerPostalCode (snd row)) pc_CustomerPostalCode [?j] pcs = [(?j, None)]"
    by (rule merge_left_unmatched)
  then show ?thesis
    by (simp add: merge_postal_def merged_astype_def fill_coordinates_def fillna0_def)
qed

lemma unmatched_located:
  assumes "astype_str L (c_CustomerPostalCode (snd j)) \<notin> pc_CustomerPostalCode ` set pcs"
  shows "sales_located L [j] pcs = []"
  unfolding sales_located_def unmatched_sentinel [OF assms]
  by (simp add: sales_clean_geo_def)

lemma merge_left_Some:
  "(l, Some r) \<in> set (merge_left lk rk left right) \<Longrightarrow> r \<in> set right \<and> rk r = lk l"
proof -
  assume "(l, Some r) \<in> set (merge_left lk rk left right)"
  then obtain x where "x \<in> set left"
    and in_x: "(l, Some r) \<in> set (case filter (\<lambda>r. rk r = lk x) right of
                  [] \<Rightarrow> [(x, None)] | rs \<Rightarrow> map (\<lambda>r. (x, Some r)) rs)"
    by (auto simp: merge_left_def)
  from in_x have "l = x \<and> r \<in> set (filter (\<lambda>r. rk r = lk x) right)"
    by (cases "filter (\<lambda>r. rk r = lk x) right") auto
  then show ?thesis by simp
qed

lemma located_in_lookup:
  assumes "row \<in> set (sales_located L q pcs)"
  shows "c_CustomerPostalCode (snd (fst row)) \<in> pc_CustomerPostalCode ` set pcs"
proof -
  from assms obtain l po where m: "(l, po) \<in> set (merge_postal (merged_astype L q) pcs)"
    and row: "row = (l, fillna0 (Option.bind po pc_Latitude), fillna0 (Option.bind po pc_Longitude))"
    and nz: "fillna0 (Option.bind po pc_Latitude) \<noteq> 0"
    by (auto simp: sales_located_def sales_clean_geo_def fill_coordinates_def)
  from nz obtain p where po: "po = Some p" by (cases po) (auto simp: fillna0_def)
  from m po have "p \<in> set pcs \<and> pc_CustomerPostalCode p = c_CustomerPostalCode (snd l)"
    unfolding merge_postal_def by (auto dest: merge_left_Some)
  with row show ?thesis by force
qed

text \<open>
  C7. Take a row of a query result (a sale joined with its customer) whose postal code,
  as a string, is the postal code of no row of the lookup table. The left join and
  \<^verbatim>\<open>fillna(0)\<close> give it the coordinates (0, 0); the filter of line 287 removes it, so the
  located rows, and the grouped table with marker sizes, are those computed without it.
  Every located row has a postal code of the lookup table, and the two map tables are
  the grouped tables of the located rows of the two query results (the second one is
  computed only if line 301 did not raise on the first).
\<close>

theorem postal_code_not_in_lookup:
  "(astype_str L (c_CustomerPostalCode (snd j))
       \<notin> pc_CustomerPostalCode ` set (postal_code_data_astype L ps) \<longrightarrow>
      fill_coordinates (merge_postal (merged_astype L [j]) (postal_code_data_astype L ps))
        = [((fst j, customer_astype_str L (snd j)), 0, 0)]
      \<and> sales_located L (xs @ j # ys) (postal_code_data_astype L ps)
        = sales_located L (xs @ ys) (postal_code_data_astype L ps)
      \<and> sales_by_city_geo L quantity (sales_located L (xs @ j # ys) (postal_code_data_astype L ps))
        = sales_by_city_geo L quantity (sales_located L (xs @ ys) (postal_code_data_astype L ps)))
   \<and> (\<forall>row\<in>set (sales_located L q (postal_code_data_astype L ps)).
        c_CustomerPostalCode (snd (fst row))
          \<in> pc_CustomerPostalCode ` set (postal_code_data_astype L ps))
   \<and> map_missed_by_city (snd (dashboard L F))
       = sales_by_city_geo L ms_AantalBesteld
           (sales_located L (missed_sales_query (missed_sales F) (customer_data F))
              (postal_code_data_astype L (postal_code_data F)))
   \<and> map_actual_by_city (snd (dashboard L F))
       = (case map_missed_by_city (snd (dashboard L F)) of
            Inl e \<Rightarrow> Inl e
          | Inr sized \<Rightarrow>
              sales_by_city_geo L as_SaleQuantity
                (sales_located L (actual_sales_query (actual_sales F) (customer_data F))
                   (postal_code_data_astype L (postal_code_data F))))"
proof (intro conjI impI ballI)
  show "map_missed_by_city (snd (dashboard L F))
       = sales_by_city_geo L ms_AantalBesteld
           (sales_located L (missed_sales_query (missed_sales F) (customer_data F))
              (postal_code_data_astype L (postal_code_data F)))"
    by (simp add: dashboard_charts)
  show "map_actual_by_city (snd (dashboard L F))
       = (case map_missed_by_city (snd (dashboard L F)) of
            Inl e \<Rightarrow> Inl e
          | Inr sized \<Rightarrow>
              sales_by_city_geo L as_SaleQuantity
                (sales_located L (actual_sales_query (actual_sales F) (customer_data F))
                   (postal_code_data_astype L (postal_code_data F))))"
    by (simp add: dashboard_charts)
next
  assume a: "astype_str L (c_CustomerPostalCode (snd j))
       \<notin> pc_CustomerPostalCode ` set (postal_code_data_astype L ps)"
  show "fill_coordinates (merge_postal (merged_astype L [j]) (postal_code_data_astype L ps))
        = [((fst j, customer_astype_str L (snd j)), 0, 0)]"
    by (rule unmatched_sentinel [OF a])
  have "sales_located L (xs @ [j] @ ys) (postal_code_data_astype L ps)
        = sales_located L (xs @ ys) (postal_code_data_astype L ps)"
    by (simp only: sales_located_append unmatched_located [OF a] append_Nil)
  then show eq: "sales_located L (xs @ j # ys) (postal_code_data_astype L ps)
        = sales_located L (xs @ ys) (postal_code_data_astype L ps)"
    by simp
  show "sales_by_city_geo L quantity (sales_located L (xs @ j # ys) (postal_code_data_astype L ps))
        = sales_by_city_geo L quantity (sales_located L (xs @ ys) (postal_code_data_astype L ps))"
    by (simp only: eq)
next
  fix row
  assume "row \<in> set (sales_located L q (postal_code_data_astype L ps))"
  then show "c_CustomerPostalCode (snd (fst row))
          \<in> pc_CustomerPostalCode ` set (postal_code_data_astype L ps)"
    by (rule located_in_lookup)
qed

theorem postal_code_not_in_lookup_witness:
  "astype_str sample_pandas (c_CustomerPostalCode (last sample_customers))
       \<notin> pc_CustomerPostalCode ` set (postal_code_data_astype sample_pandas sample_postal)
   \<and> fill_coordinates (merge_postal (merged_astype sample_pandas [(last sample_actual, last sample_customers)])
         (postal_code_data_astype sample_pandas sample_postal))
       = [((last sample_actual, customer_astype_str sample_pandas (last sample_customers)), 0, 0)]
   \<and> actual_sales_query sample_actual sample_customers
       = [(hd sample_actual, hd sample_customers)] @ (last sample_actual, last sample_customers) # []
   \<and> sales_by_city_geo sample_pandas as_SaleQuantity
         (sales_located sample_pandas
            ([(hd sample_actual, hd sample_customers)] @ (last sample_actual, last sample_customers) # [])
            (postal_code_data_astype sample_pandas sample_postal))
       = Inr [((''Gent'', 5105 / 100, 372 / 100), 40000, 4)]
   \<and> ((hd sample_actual, hd sample_customers), 5105 / 100, 372 / 100)
        \<in> set (sales_located sample_pandas (actual_sales_query sample_actual sample_customers)
                 (postal_code_data_astype sample_pandas sample_postal))
   \<and> c_CustomerPostalCode (hd sample_customers)
        \<in> pc_CustomerPostalCode ` set (postal_code_data_astype sample_pandas sample_postal)"
proof -
  let ?j = "(last sample_actual, last sample_customers)"
  let ?xs = "[(hd sample_actual, hd sample_customers)]"
  let ?pcs = "postal_code_data_astype sample_pandas sample_postal"
  let ?row = "((hd sample_actual, hd sample_customers), 5105 / 100 :: rat, 372 / 100 :: rat)"
  have absent: "astype_str sample_pandas (c_CustomerPostalCode (snd ?j)) \<notin> pc_CustomerPostalCode ` set ?pcs"
    by (simp add: sample_customers_def sample_postal_def postal_code_data_astype_def)
  have q: "actual_sales_query sample_actual sample_customers = ?xs @ ?j # []"
    by code_simp
  have rest: "sales_by_city_geo sample_pandas as_SaleQuantity
      (sales_located sample_pandas (?xs @ []) ?pcs) = Inr [((''Gent'', 5105 / 100, 372 / 100), 40000, 4)]"
    by code_simp
  have located: "?row \<in> set (sales_located sample_pandas (actual_sales_query sample_actual sample_customers) ?pcs)"
    by code_simp
  note T = postal_code_not_in_lookup [where L = sample_pandas and j = ?j and ps = sample_postal
      and xs = ?xs and ys = "[]" and quantity = as_SaleQuantity
      and q = "actual_sales_query sample_actual sample_customers"]
  from T absent have sentinel: "fill_coordinates (merge_postal (merged_astype sample_pandas [?j]) ?pcs)
       = [((fst ?j, customer_astype_str sample_pandas (snd ?j)), 0, 0)]"
    and dropped: "sales_by_city_geo sample_pandas as_SaleQuantity
         (sales_located sample_pandas (?xs @ ?j # []) ?pcs)
        = sales_by_city_geo sample_pandas as_SaleQuantity
         (sales_located sample_pandas (?xs @ []) ?pcs)"
    by blast+
  from T located have listed: "c_CustomerPostalCode (snd (fst ?row)) \<in> pc_CustomerPostalCode ` set ?pcs"
    by blast
  from absent sentinel q dropped rest located listed show ?thesis by simp
qed

subsection \<open>Marker sizes\<close>







subsection \<open>Labels that the dictionaries do not know\<close>

lemma map_of_not_key: "l \<notin> fst ` set d \<Longrightarrow> map_of d l = None"
  by (simp add: map_of_eq_None_iff)

lemma dropna_drop:
  assumes "series_map reason_translation (ms_Reason r) = None"
  shows "missed_sales_dropna (missed_sales_filtered (xs @ r # ys))
       = missed_sales_dropna (missed_sales_filtered (xs @ ys))"
  using assms by (simp add: missed_sales_dropna_def missed_sales_filtered_def)

lemma clean_drop:
  assumes "series_map reason_translation (ms_Reason r) = None"
  shows "missed_sales_clean L (missed_sales_filtered (xs @ r # ys))
       = missed_sales_clean L (missed_sales_filtered (xs @ ys))"
  unfolding missed_sales_clean_def dropna_drop [OF assms] ..

lemma to_datetime_drop:
  assumes "missed_date_format L (xs @ r # ys) = missed_date_format L (xs @ ys)"
  shows "missed_sales_to_datetime L (xs @ r # ys)
       = map (\<lambda>r. r\<lparr>ms_Date := parsed_date L (xs @ ys) r\<rparr>) xs
           @ r\<lparr>ms_Date := parsed_date L (xs @ ys) r\<rparr>
           # map (\<lambda>r. r\<lparr>ms_Date := parsed_date L (xs @ ys) r\<rparr>) ys"
    and "missed_sales_to_datetime L (xs @ ys)
       = map (\<lambda>r. r\<lparr>ms_Date := parsed_date L (xs @ ys) r\<rparr>) xs
           @ map (\<lambda>r. r\<lparr>ms_Date := parsed_date L (xs @ ys) r\<rparr>) ys"
  by (simp_all add: missed_sales_to_datetime_def parsed_date_def assms)

lemma month_reason_drop:
  assumes "series_map reason_translation (ms_Reason r) = None"
    and "missed_date_format L (xs @ r # ys) = missed_date_format L (xs @ ys)"
  shows "MissedByMonthReason L (xs @ r # ys) = MissedByMonthReason L (xs @ ys)"
proof -
  have "series_map reason_translation (ms_Reason (r\<lparr>ms_Date := parsed_date L (xs @ ys) r\<rparr>)) = None"
    using assms(1) by simp
  then show ?thesis
    unfolding MissedByMonthReason_def to_datetime_drop [OF assms(2)] by (simp only: clean_drop)
qed

text \<open>
  C5. A Reason that is not a key of the reason dictionary is mapped to null. A missed
  sale with such a Reason is dropped by line 105, whatever line 67 made of the dates: the
  rows kept, the cleaned table and the month-and-reason table are those of the table
  without the row. So the chart of the loaded table is the chart of the loaded table
  without the row whenever line 67 guesses the same date format for both. A customer type
  that is not a key of the customer-type dictionary is left unchanged, and a merged row
  with such a type (missed or actual) has a group of its own label in the table by
  customer type, whose total is the sum pandas computes over the rows translated to that
  label.
\<close>

theorem unmapped_labels:
  "(l \<notin> fst ` set reason_translation \<longrightarrow>
      series_map reason_translation (Some l) = None
      \<and> (ms_Reason r = Some l \<longrightarrow>
           missed_sales_dropna (missed_sales_filtered (xs @ r # ys))
             = missed_sales_dropna (missed_sales_filtered (xs @ ys))
           \<and> missed_sales_by_time_reason L (missed_sales_clean L (missed_sales_filtered (xs @ r # ys)))
             = missed_sales_by_time_reason L (missed_sales_clean L (missed_sales_filtered (xs @ ys)))
           \<and> (missed_date_format L (xs @ r # ys) = missed_date_format L (xs @ ys) \<longrightarrow>
                MissedByMonthReason L (xs @ r # ys) = MissedByMonthReason L (xs @ ys))))
   \<and> (l \<notin> fst ` set customer_type_translations \<longrightarrow>
      series_replace customer_type_translations (Some l) = Some l
      \<and> (m \<in> set m_merged \<and> c_CustomerType (snd m) = Some l \<longrightarrow>
           (l, col_sum L (filter (\<lambda>c. \<not> isna L c) (map (\<lambda>row. ms_AantalBesteld (fst row))
                  (filter (\<lambda>row. CustomerTypeTranslated row = Some l) m_merged))))
             \<in> set (missed_sales_by_customer_type L m_merged))
      \<and> (a \<in> set a_merged \<and> c_CustomerType (snd a) = Some l \<longrightarrow>
           (l, col_sum L (filter (\<lambda>c. \<not> isna L c) (map (\<lambda>row. as_SaleQuantity (fst row))
                  (filter (\<lambda>row. CustomerTypeTranslated row = Some l) a_merged))))
             \<in> set (actual_sales_by_customer_type L a_merged)))"
proof (intro conjI impI)
  assume n: "l \<notin> fst ` set reason_translation"
  then show none: "series_map reason_translation (Some l) = None"
    by (simp add: series_map_def map_of_not_key)
  assume "ms_Reason r = Some l"
  with none have null: "series_map reason_translation (ms_Reason r) = None" by simp
  then show "missed_sales_dropna (missed_sales_filtered (xs @ r # ys))
             = missed_sales_dropna (missed_sales_filtered (xs @ ys))"
    by (rule dropna_drop)
  from null show "missed_sales_by_time_reason L (missed_sales_clean L (missed_sales_filtered (xs @ r # ys)))
             = missed_sales_by_time_reason L (missed_sales_clean L (missed_sales_filtered (xs @ ys)))"
    by (simp only: clean_drop)
  assume "missed_date_format L (xs @ r # ys) = missed_date_format L (xs @ ys)"
  with null show "MissedByMonthReason L (xs @ r # ys) = MissedByMonthReason L (xs @ ys)"
    by (rule month_reason_drop)
next
  assume n: "l \<notin> fst ` set customer_type_translations"
  then show same: "series_replace customer_type_translations (Some l) = Some l"
    by (simp add: series_replace_def map_of_not_key)
  {
    assume "m \<in> set m_merged \<and> c_CustomerType (snd m) = Some l"
    with same have "m \<in> set m_merged" and "CustomerTypeTranslated m = Some l"
      by (simp_all add: CustomerTypeTranslated_def)
    then show "(l, col_sum L (filter (\<lambda>c. \<not> isna L c) (map (\<lambda>row. ms_AantalBesteld (fst row))
                  (filter (\<lambda>row. CustomerTypeTranslated row = Some l) m_merged))))
             \<in> set (missed_sales_by_customer_type L m_merged)"
      unfolding missed_sales_by_customer_type_def by (rule groupby_sum_group)
  }
  {
    assume "a \<in> set a_merged \<and> c_CustomerType (snd a) = Some l"
    with same have "a \<in> set a_merged" and "CustomerTypeTranslated a = Some l"
      by (simp_all add: CustomerTypeTranslated_def)
    then show "(l, col_sum L (filter (\<lambda>c. \<not> isna L c) (map (\<lambda>row. as_SaleQuantity (fst row))
                  (filter (\<lambda>row. CustomerTypeTranslated row = Some l) a_merged))))
             \<in> set (actual_sales_by_customer_type L a_merged)"
      unfolding actual_sales_by_customer_type_def by (rule groupby_sum_group)
  }
qed

theorem unmapped_labels_witness:
  "''niet op voorraad'' \<notin> fst ` set reason_translation
   \<and> series_map reason_translation (Some ''niet op voorraad'') = None
   \<and> ms_Reason (sample_missed ! 3) = Some ''niet op voorraad''
   \<and> sample_missed = take 3 sample_missed @ sample_missed ! 3 # drop 4 sample_missed
   \<and> missed_sales_dropna (missed_sales_filtered sample_missed)
       = missed_sales_dropna (missed_sales_filtered (take 3 sample_missed @ drop 4 sample_missed))
   \<and> MissedByMonthReason sample_pandas sample_missed
       = MissedByMonthReason sample_pandas (take 3 sample_missed @ drop 4 sample_missed)
   \<and> ''Groothandel'' \<notin> fst ` set customer_type_translations
   \<and> series_replace customer_type_translations (Some ''Groothandel'') = Some ''Groothandel''
   \<and> (last sample_actual, last sample_customers) \<in> set (actual_sales_merged sample_actual sample_customers)
   \<and> c_CustomerType (last sample_customers) = Some ''Groothandel''
   \<and> (''Groothandel'', 10) \<in> set (actual_sales_by_customer_type sample_pandas
         (actual_sales_merged sample_actual sample_customers))"
proof -
  let ?a = "(last sample_actual, last sample_customers)"
  let ?am = "actual_sales_merged sample_actual sample_customers"
  let ?xs = "take 3 sample_missed"
  let ?ys = "drop 4 sample_missed"
  have r1: "''niet op voorraad'' \<notin> fst ` set reason_translation"
    by (simp add: reason_translation_def)
  have r2: "ms_Reason (sample_missed ! 3) = Some ''niet op voorraad''"
    by (simp add: sample_missed_def)
  have r3: "sample_missed = ?xs @ sample_missed ! 3 # ?ys"
    by (simp add: sample_missed_def)
  have r4: "missed_date_format sample_pandas (?xs @ sample_missed ! 3 # ?ys)
      = missed_date_format sample_pandas (?xs @ ?ys)"
    by code_simp
  have c1: "''Groothandel'' \<notin> fst ` set customer_type_translations"
    by (simp add: customer_type_translations_def)
  have c2: "?a \<in> set ?am" by code_simp
  have c3: "c_CustomerType (snd ?a) = Some ''Groothandel''"
    by (simp add: sample_customers_def)
  have c4: "col_sum sample_pandas (filter (\<lambda>c. \<not> isna sample_pandas c)
              (map (\<lambda>row. as_SaleQuantity (fst row))
                  (filter (\<lambda>row. CustomerTypeTranslated row = Some ''Groothandel'') ?am))) = 10"
    by code_simp
  note R = unmapped_labels [where l = "''niet op voorraad''" and r = "sample_missed ! 3"
      and L = sample_pandas and xs = ?xs and ys = ?ys]
  note C = unmapped_labels [where l = "''Groothandel''" and L = sample_pandas and a = ?a and a_merged = ?am]
  from R r1 r2 r4 have none: "series_map reason_translation (Some ''niet op voorraad'') = None"
    and kept: "missed_sales_dropna (missed_sales_filtered (?xs @ sample_missed ! 3 # ?ys))
       = missed_sales_dropna (missed_sales_filtered (?xs @ ?ys))"
    and chart: "MissedByMonthReason sample_pandas (?xs @ sample_missed ! 3 # ?ys)
       = MissedByMonthReason sample_pandas (?xs @ ?ys)"
    by blast+
  from C c1 c2 c3 have same: "series_replace customer_type_translations (Some ''Groothandel'') = Some ''Groothandel''"
    and own: "(''Groothandel'', col_sum sample_pandas (filter (\<lambda>c. \<not> isna sample_pandas c)
              (map (\<lambda>row. as_SaleQuantity (fst row))
                  (filter (\<lambda>row. CustomerTypeTranslated row = Some ''Groothandel'') ?am))))
             \<in> set (actual_sales_by_customer_type sample_pandas ?am)"
    by blast+
  from kept r3 have kept': "missed_sales_dropna (missed_sales_filtered sample_missed)
       = missed_sales_dropna (missed_sales_filtered (?xs @ ?ys))"
    by simp
  from chart r3 have dropped: "MissedByMonthReason sample_pandas sample_missed
       = MissedByMonthReason sample_pandas (?xs @ ?ys)"
    by simp
  from own c4 have group: "(''Groothandel'', 10) \<in> set (actual_sales_by_customer_type sample_pandas ?am)"
    by simp
  from r1 none r2 r3 kept' dropped c1 same c2 c3 group show ?thesis by simp
qed

subsection \<open>The bar chart by city and the map\<close>

lemma set_sql_inner_join:
  "set (sql_inner_join lk rk left right)
     = {(l, r). l \<in> set left \<and> r \<in> set right \<and> sql_eq (lk l) (rk r)}"
  by (auto simp: sql_inner_join_def)

lemma set_merge_inner:
  "set (merge_inner lk rk left right) = {(l, r). l \<in> set left \<and> r \<in> set right \<and> rk r = lk l}"
  by (auto simp: merge_inner_def)

text \<open>
  C6. The rows behind the map are the pairs of a flagged missed sale and a customer of
  the same (non-null) number; the rows behind the bar chart by city come from the pairs
  whose missed sale, besides, has a date that parses and a Reason that the dictionary
  knows. On the small data set the two totals of Gent differ: 8 in the bar chart
  (5 + 3), 39 on the map (5 + 3 + 7 + 11 + 13).
\<close>

theorem heatmap_and_map_rows:
  "set (missed_sales_query ms cs)
     = {(m, c). m \<in> set ms \<and> c \<in> set cs \<and> ms_GEMISTEVERKOOPFLG m = Some 1
               \<and> sql_eq (ms_CustomerNbr m) (c_CustomerNbr c)}
   \<and> set (missed_sales_merged
            (missed_sales_clean L (missed_sales_filtered (missed_sales_to_datetime L ms))) cs)
     = (\<lambda>(m, c). (\<lparr>ms_CustomerNbr = ms_CustomerNbr m, ms_Date = parsed_date L ms m,
                     ms_AantalBesteld = numeric_quantity L ms m,
                     ms_GEMISTEVERKOOPFLG = ms_GEMISTEVERKOOPFLG m,
                     ms_Reason = series_map reason_translation (ms_Reason m),
                     DatePeriod = to_period_M (parsed_date L ms m)\<rparr>, c))
       ` {(m, c). m \<in> set ms \<and> c \<in> set cs \<and> ms_GEMISTEVERKOOPFLG m = Some 1
                 \<and> parsed_date L ms m \<noteq> NaT
                 \<and> series_map reason_translation (ms_Reason m) \<noteq> None
                 \<and> c_CustomerNbr c = ms_CustomerNbr m}
   \<and> bar_missed_by_city (snd (dashboard sample_pandas sample_files)) = [(''Gent'', 8)]
   \<and> map_missed_by_city (snd (dashboard sample_pandas sample_files))
       = Inr [((''Gent'', 5105 / 100, 372 / 100), 39, 1)]"
proof (intro conjI)
  show "set (missed_sales_query ms cs)
     = {(m, c). m \<in> set ms \<and> c \<in> set cs \<and> ms_GEMISTEVERKOOPFLG m = Some 1
               \<and> sql_eq (ms_CustomerNbr m) (c_CustomerNbr c)}"
    by (auto simp: missed_sales_query_def set_sql_inner_join)
  show "set (missed_sales_merged
            (missed_sales_clean L (missed_sales_filtered (missed_sales_to_datetime L ms))) cs)
     = (\<lambda>(m, c). (\<lparr>ms_CustomerNbr = ms_CustomerNbr m, ms_Date = parsed_date L ms m,
                     ms_AantalBesteld = numeric_quantity L ms m,
                     ms_GEMISTEVERKOOPFLG = ms_GEMISTEVERKOOPFLG m,
                     ms_Reason = series_map reason_translation (ms_Reason m),
                     DatePeriod = to_period_M (parsed_date L ms m)\<rparr>, c))
       ` {(m, c). m \<in> set ms \<and> c \<in> set cs \<and> ms_GEMISTEVERKOOPFLG m = Some 1
                 \<and> parsed_date L ms m \<noteq> NaT
                 \<and> series_map reason_translation (ms_Reason m) \<noteq> None
                 \<and> c_CustomerNbr c = ms_CustomerNbr m}"
    unfolding clean_of_loaded missed_sales_merged_def set_merge_inner
    by (auto simp: image_iff) force
  show "bar_missed_by_city (snd (dashboard sample_pandas sample_files)) = [(''Gent'', 8)]"
    by (simp add: sample_charts)
  show "map_missed_by_city (snd (dashboard sample_pandas sample_files))
       = Inr [((''Gent'', 5105 / 100, 372 / 100), 39, 1)]"
    by (simp add: sample_charts)
qed

subsection \<open>The loaded tables after the run\<close>

lemma to_datetime_coerce_fixed: "to_datetime_coerce L fmt c = c \<longleftrightarrow> (\<forall>x. c \<noteq> Raw x)"
  by (cases c) (auto split: option.splits)

lemma astype_str_fixed: "astype_str L c = c \<longleftrightarrow> (\<forall>x. c \<noteq> Obj x)"
  by (cases c) auto

lemma astype_str_opt_fixed: "astype_str_opt L c = c \<longleftrightarrow> c \<noteq> None"
  by (cases c) auto

lemma map_fixed: "map f xs = xs \<longleftrightarrow> (\<forall>x\<in>set xs. f x = x)"
  by (induction xs) auto

lemma missed_date_fixed: "r\<lparr>ms_Date := v\<rparr> = r \<longleftrightarrow> v = ms_Date r"
  by (cases r) auto

lemma actual_date_fixed: "r\<lparr>as_Date := v\<rparr> = r \<longleftrightarrow> v = as_Date r"
  by (cases r) auto

lemma customer_fixed:
  "customer_astype_str L c = c \<longleftrightarrow> c_CustomerCity c \<noteq> None \<and> (\<forall>x. c_CustomerPostalCode c \<noteq> Obj x)"
  by (cases c) (auto simp: customer_astype_str_def astype_str_opt_fixed astype_str_fixed)

lemma postal_fixed: "p\<lparr>pc_CustomerPostalCode := v\<rparr> = p \<longleftrightarrow> v = pc_CustomerPostalCode p"
  by (cases p) auto

lemma frames_after:
  "fst (dashboard L F) =
     \<lparr>missed_sales =
        map (\<lambda>r. r\<lparr>ms_Date := to_datetime_coerce L (missed_date_format L (missed_sales F)) (ms_Date r)\<rparr>)
          (missed_sales F),
      actual_sales =
        map (\<lambda>r. r\<lparr>as_Date :=
                    to_datetime_coerce L (guess_format_for_array L (map as_Date (actual_sales F))) (as_Date r)\<rparr>)
          (actual_sales F),
      customer_data =
        map (\<lambda>c. c\<lparr>c_CustomerCity := astype_str_opt L (c_CustomerCity c),
                    c_CustomerPostalCode := astype_str L (c_CustomerPostalCode c)\<rparr>) (customer_data F),
      postal_code_data =
        map (\<lambda>p. p\<lparr>pc_CustomerPostalCode := astype_str L (pc_CustomerPostalCode p)\<rparr>) (postal_code_data F)\<rparr>"
  by (cases F)
    (simp add: dashboard_def Let_def convert_dates_def convert_strings_def missed_sales_to_datetime_def
      actual_sales_to_datetime_def customer_data_astype_def postal_code_data_astype_def
      customer_astype_str_def)

lemma sample_frames_after:
  "fst (dashboard sample_pandas sample_files) =
     \<lparr>missed_sales =
        [\<lparr>ms_CustomerNbr = Some 1, ms_Date = Timestamp \<lparr>year = 2024, month = 1, day = 15\<rparr>,
          ms_AantalBesteld = 5, ms_GEMISTEVERKOOPFLG = Some 1, ms_Reason = Some ''stock 0''\<rparr>,
         \<lparr>ms_CustomerNbr = Some 1, ms_Date = Timestamp \<lparr>year = 2024, month = 1, day = 20\<rparr>,
          ms_AantalBesteld = 3, ms_GEMISTEVERKOOPFLG = Some 1, ms_Reason = Some ''stock 0''\<rparr>,
         \<lparr>ms_CustomerNbr = Some 1, ms_Date = Timestamp \<lparr>year = 2024, month = 1, day = 20\<rparr>,
          ms_AantalBesteld = 7, ms_GEMISTEVERKOOPFLG = Some 1, ms_Reason = None\<rparr>,
         \<lparr>ms_CustomerNbr = Some 1, ms_Date = Timestamp \<lparr>year = 2024, month = 1, day = 20\<rparr>,
          ms_AantalBesteld = 11, ms_GEMISTEVERKOOPFLG = Some 1, ms_Reason = Some ''niet op voorraad''\<rparr>,
         \<lparr>ms_CustomerNbr = Some 1, ms_Date = NaT, ms_AantalBesteld = 13,
          ms_GEMISTEVERKOOPFLG = Some 1, ms_Reason = Some ''stock 0''\<rparr>],
      actual_sales =
        [\<lparr>as_CustomerNbr = Some 1, as_Date = Timestamp \<lparr>year = 2024, month = 1, day = 15\<rparr>,
          as_SaleQuantity = 40000\<rparr>,
         \<lparr>as_CustomerNbr = Some 3, as_Date = Timestamp \<lparr>year = 2024, month = 1, day = 20\<rparr>,
          as_SaleQuantity = 10\<rparr>],
      customer_data = sample_customers, postal_code_data = sample_postal\<rparr>"
  by code_simp

text \<open>
  C4, as stated, fails: line 67 overwrites the Date column of the loaded missed-sales
  table. On the small data set its five date strings become four datetimes and, for the
  string that does not parse, the null datetime.
\<close>

theorem source_tables_counterexample:
  "map ms_Date (missed_sales sample_files)
     = [Raw ''2024-01-15'', Raw ''2024-01-20'', Raw ''2024-01-20'', Raw ''2024-01-20'', Raw ''yesterday'']
   \<and> map ms_Date (missed_sales (fst (dashboard sample_pandas sample_files)))
     = [Timestamp \<lparr>year = 2024, month = 1, day = 15\<rparr>, Timestamp \<lparr>year = 2024, month = 1, day = 20\<rparr>,
        Timestamp \<lparr>year = 2024, month = 1, day = 20\<rparr>, Timestamp \<lparr>year = 2024, month = 1, day = 20\<rparr>,
        NaT]
   \<and> fst (dashboard sample_pandas sample_files) \<noteq> sample_files"
proof -
  have a: "map ms_Date (missed_sales sample_files)
     = [Raw ''2024-01-15'', Raw ''2024-01-20'', Raw ''2024-01-20'', Raw ''2024-01-20'', Raw ''yesterday'']"
    by (simp add: sample_files_def sample_missed_def)
  have b: "map ms_Date (missed_sales (fst (dashboard sample_pandas sample_files)))
     = [Timestamp \<lparr>year = 2024, month = 1, day = 15\<rparr>, Timestamp \<lparr>year = 2024, month = 1, day = 20\<rparr>,
        Timestamp \<lparr>year = 2024, month = 1, day = 20\<rparr>, Timestamp \<lparr>year = 2024, month = 1, day = 20\<rparr>,
        NaT]"
    by (simp add: sample_frames_after)
  from a b have "fst (dashboard sample_pandas sample_files) \<noteq> sample_files" by auto
  with a b show ?thesis by simp
qed

text \<open>
  C4, amended. After the run each loaded table has its rows in their order, with these
  columns converted in place and every other column as loaded: Date of both sales tables
  (lines 67-68, to datetime, each column with the format guessed for it), city and postal
  code of the customer table and postal code of the lookup table (lines 247-249, to
  string). No other statement writes to a loaded table. So the tables are exactly as
  loaded if and only if every Date cell was a datetime or the null datetime already,
  every customer city was not null, and every postal code was a string.
\<close>

theorem source_tables_after:
  "fst (dashboard L F) =
     \<lparr>missed_sales =
        map (\<lambda>r. r\<lparr>ms_Date := to_datetime_coerce L (missed_date_format L (missed_sales F)) (ms_Date r)\<rparr>)
          (missed_sales F),
      actual_sales =
        map (\<lambda>r. r\<lparr>as_Date :=
                    to_datetime_coerce L (guess_format_for_array L (map as_Date (actual_sales F))) (as_Date r)\<rparr>)
          (actual_sales F),
      customer_data =
        map (\<lambda>c. c\<lparr>c_CustomerCity := astype_str_opt L (c_CustomerCity c),
                    c_CustomerPostalCode := astype_str L (c_CustomerPostalCode c)\<rparr>) (customer_data F),
      postal_code_data =
        map (\<lambda>p. p\<lparr>pc_CustomerPostalCode := astype_str L (pc_CustomerPostalCode p)\<rparr>) (postal_code_data F)\<rparr>
   \<and> (fst (dashboard L F) = F \<longleftrightarrow>
        (\<forall>r\<in>set (missed_sales F). \<forall>x. ms_Date r \<noteq> Raw x)
        \<and> (\<forall>r\<in>set (actual_sales F). \<forall>x. as_Date r \<noteq> Raw x)
        \<and> (\<forall>c\<in>set (customer_data F). c_CustomerCity c \<noteq> None \<and> (\<forall>x. c_CustomerPostalCode c \<noteq> Obj x))
        \<and> (\<forall>p\<in>set (postal_code_data F). \<forall>x. pc_CustomerPostalCode p \<noteq> Obj x))"
proof
  show "fst (dashboard L F) =
     \<lparr>missed_sales =
        map (\<lambda>r. r\<lparr>ms_Date := to_datetime_coerce L (missed_date_format L (missed_sales F)) (ms_Date r)\<rparr>)
          (missed_sales F),
      actual_sales =
        map (\<lambda>r. r\<lparr>as_Date :=
                    to_datetime_coerce L (guess_format_for_array L (map as_Date (actual_sales F))) (as_Date r)\<rparr>)
          (actual_sales F),
      customer_data =
        map (\<lambda>c. c\<lparr>c_CustomerCity := astype_str_opt L (c_CustomerCity c),
                    c_CustomerPostalCode := astype_str L (c_CustomerPostalCode c)\<rparr>) (customer_data F),
      postal_code_data =
        map (\<lambda>p. p\<lparr>pc_CustomerPostalCode := astype_str L (pc_CustomerPostalCode p)\<rparr>) (postal_code_data F)\<rparr>"
    by (rule frames_after)
next
  have "fst (dashboard L F) = F \<longleftrightarrow>
      missed_sales_to_datetime L (missed_sales F) = missed_sales F
      \<and> actual_sales_to_datetime L (actual_sales F) = actual_sales F
      \<and> customer_data_astype L (customer_data F) = customer_data F
      \<and> postal_code_data_astype L (postal_code_data F) = postal_code_data F"
    by (cases F) (auto simp: dashboard_def Let_def convert_dates_def convert_strings_def)
  then show "fst (dashboard L F) = F \<longleftrightarrow>
        (\<forall>r\<in>set (missed_sales F). \<forall>x. ms_Date r \<noteq> Raw x)
        \<and> (\<forall>r\<in>set (actual_sales F). \<forall>x. as_Date r \<noteq> Raw x)
        \<and> (\<forall>c\<in>set (customer_data F). c_CustomerCity c \<noteq> None \<and> (\<forall>x. c_CustomerPostalCode c \<noteq> Obj x))
        \<and> (\<forall>p\<in>set (postal_code_data F). \<forall>x. pc_CustomerPostalCode p \<noteq> Obj x)"
    by (simp only: missed_sales_to_datetime_def actual_sales_to_datetime_def customer_data_astype_def
        postal_code_data_astype_def map_fixed missed_date_fixed actual_date_fixed customer_fixed
        postal_fixed to_datetime_coerce_fixed astype_str_fixed)
qed

theorem source_tables_after_witness:
  "fst (dashboard sample_pandas (fst (dashboard sample_pandas sample_files)))
     = fst (dashboard sample_pandas sample_files)"
proof -
  let ?F = "fst (dashboard sample_pandas sample_files)"
  have "(\<forall>r\<in>set (missed_sales ?F). \<forall>x. ms_Date r \<noteq> Raw x)
        \<and> (\<forall>r\<in>set (actual_sales ?F). \<forall>x. as_Date r \<noteq> Raw x)
        \<and> (\<forall>c\<in>set (customer_data ?F). c_CustomerCity c \<noteq> None \<and> (\<forall>x. c_CustomerPostalCode c \<noteq> Obj x))
        \<and> (\<forall>p\<in>set (postal_code_data ?F). \<forall>x. pc_CustomerPostalCode p \<noteq> Obj x)"
    by (simp add: sample_frames_after sample_customers_def sample_postal_def)
  with source_tables_after [of sample_pandas ?F] show ?thesis by blast
qed

end
